theory Spec2Isabelle
  imports Main "HOL-Library.Sublist" "HOL-Library.Multiset"
begin

section \<open>JavaScript strings\<close>

text \<open>
  A JavaScript string is a sequence of code units; the model keeps the code units
  0..255 as \<^typ>\<open>char\<close>. The methods used by the printer are written out below.
\<close>

abbreviation TAB :: char where "TAB \<equiv> CHR 0x09"
abbreviation NL :: char where "NL \<equiv> CHR 0x0A"
abbreviation VT :: char where "VT \<equiv> CHR 0x0B"
abbreviation FF :: char where "FF \<equiv> CHR 0x0C"
abbreviation CR :: char where "CR \<equiv> CHR 0x0D"
abbreviation SP :: char where "SP \<equiv> CHR 0x20"
abbreviation NBSP :: char where "NBSP \<equiv> CHR 0xA0"
abbreviation BACKSLASH :: char where "BACKSLASH \<equiv> CHR 0x5C"
abbreviation DQUOTE :: char where "DQUOTE \<equiv> CHR 0x22"
abbreviation SQUOTE :: char where "SQUOTE \<equiv> CHR 0x27"

text \<open>The regular expression class \<^verbatim>\<open>\s\<close>, on the code units the model keeps.\<close>

definition js_whitespace :: "char \<Rightarrow> bool" where
  "js_whitespace c \<longleftrightarrow> c = TAB \<or> c = NL \<or> c = VT \<or> c = FF \<or> c = CR \<or> c = SP \<or> c = NBSP"

text \<open>\<^verbatim>\<open>[\n\r]\<close> and \<^verbatim>\<open>[^\S\n\r]\<close>, the two classes of the newline-counting expressions.\<close>

definition js_line_end :: "char \<Rightarrow> bool" where
  "js_line_end c \<longleftrightarrow> c = NL \<or> c = CR"

definition js_blank :: "char \<Rightarrow> bool" where
  "js_blank c \<longleftrightarrow> js_whitespace c \<and> \<not> js_line_end c"

text \<open>\<^verbatim>\<open>s.replaceAll(pat, rep)\<close>: every occurrence, left to right, without overlap.\<close>

fun replaceAll :: "string \<Rightarrow> string \<Rightarrow> string \<Rightarrow> string" where
  "replaceAll pat rep [] = (if pat = [] then rep else [])"
| "replaceAll pat rep (c # cs) =
     (if pat = [] then rep @ c # replaceAll pat rep cs
      else if prefix pat (c # cs) then rep @ replaceAll pat rep (drop (length pat - 1) cs)
      else c # replaceAll pat rep cs)"

text \<open>\<^verbatim>\<open>s.includes(pat)\<close>, \<^verbatim>\<open>s.startsWith(pat)\<close> and \<^verbatim>\<open>s.endsWith(pat)\<close>.\<close>

fun js_includes :: "string \<Rightarrow> string \<Rightarrow> bool" where
  "js_includes [] pat = (pat = [])"
| "js_includes (c # cs) pat = (prefix pat (c # cs) \<or> js_includes cs pat)"

definition startsWith :: "string \<Rightarrow> string \<Rightarrow> bool" where
  "startsWith s pat = prefix pat s"

definition endsWith :: "string \<Rightarrow> string \<Rightarrow> bool" where
  "endsWith s pat = suffix pat s"

text \<open>\<^verbatim>\<open>s.charAt(i)\<close>: the empty string outside the string.\<close>

definition charAt :: "string \<Rightarrow> int \<Rightarrow> string" where
  "charAt s i = (if 0 \<le> i \<and> i < int (length s) then [s ! nat i] else [])"

text \<open>\<^verbatim>\<open>s.split(c)\<close> for a separator of one character.\<close>

primrec split_char :: "char \<Rightarrow> string \<Rightarrow> string list" where
  "split_char sep [] = [[]]"
| "split_char sep (c # cs) =
     (if c = sep then [] # split_char sep cs
      else (case split_char sep cs of [] \<Rightarrow> [[c]] | t # ts \<Rightarrow> (c # t) # ts))"

text \<open>
  \<^verbatim>\<open>s.split(/[...]+/)\<close> for a character class \<open>P\<close>: the pieces between the maximal runs
  of characters of the class; a run at either end leaves an empty piece there.
\<close>

primrec split_runs :: "(char \<Rightarrow> bool) \<Rightarrow> string \<Rightarrow> string list" where
  "split_runs P [] = [[]]"
| "split_runs P (c # cs) =
     (if P c then (if cs \<noteq> [] \<and> P (hd cs) then split_runs P cs else [] # split_runs P cs)
      else (case split_runs P cs of [] \<Rightarrow> [[c]] | t # ts \<Rightarrow> (c # t) # ts))"

text \<open>\<^verbatim>\<open>xs.join(sep)\<close> on an array of strings.\<close>

fun join_strings :: "string \<Rightarrow> string list \<Rightarrow> string" where
  "join_strings sep [] = []"
| "join_strings sep [x] = x"
| "join_strings sep (x # y # ys) = x @ sep @ join_strings sep (y # ys)"

text \<open>\<^verbatim>\<open>s.trim()\<close> and \<^verbatim>\<open>s.toLowerCase()\<close>.\<close>

definition js_trim :: "string \<Rightarrow> string" where
  "js_trim s = rev (dropWhile js_whitespace (rev (dropWhile js_whitespace s)))"

definition toLowerCase_char :: "char \<Rightarrow> char" where
  "toLowerCase_char c =
     (let n = (of_char c :: nat)
      in if (65 \<le> n \<and> n \<le> 90) \<or> (192 \<le> n \<and> n \<le> 222 \<and> n \<noteq> 215) then char_of (n + 32) else c)"

definition toLowerCase :: "string \<Rightarrow> string" where
  "toLowerCase s = map toLowerCase_char s"

section \<open>Helpers of the repository that the printer imports\<close>

text \<open>
  Modelled from the spec: \<^verbatim>\<open>htmlWhitespaceUtils\<close> (\<^verbatim>\<open>../utils/html-whitespace-utils.js\<close>) is
  not among the source files. The spec (section 4.3) speaks of leading and trailing
  whitespace of a text run and of single-space normalisation; the whitespace characters are
  those of HTML: tab, line feed, form feed, carriage return and space.
\<close>

definition html_whitespace :: "char \<Rightarrow> bool" where
  "html_whitespace c \<longleftrightarrow> c = TAB \<or> c = NL \<or> c = FF \<or> c = CR \<or> c = SP"

definition isWhitespaceOnly :: "string \<Rightarrow> bool" where
  "isWhitespaceOnly s = list_all html_whitespace s"

definition getLeadingWhitespace :: "string \<Rightarrow> string" where
  "getLeadingWhitespace s = takeWhile html_whitespace s"

definition getTrailingWhitespace :: "string \<Rightarrow> string" where
  "getTrailingWhitespace s = rev (takeWhile html_whitespace (rev s))"

definition hasLeadingWhitespace :: "string \<Rightarrow> bool" where
  "hasLeadingWhitespace s = (case s of [] \<Rightarrow> False | c # _ \<Rightarrow> html_whitespace c)"

definition hasTrailingWhitespace :: "string \<Rightarrow> bool" where
  "hasTrailingWhitespace s = (case rev s of [] \<Rightarrow> False | c # _ \<Rightarrow> html_whitespace c)"

definition trimStart :: "string \<Rightarrow> string" where
  "trimStart s = dropWhile html_whitespace s"

definition trimEnd :: "string \<Rightarrow> string" where
  "trimEnd s = rev (dropWhile html_whitespace (rev s))"

definition html_split :: "string \<Rightarrow> string list" where
  "html_split s = split_runs html_whitespace s"

text \<open>
  Modelled from the spec: \<^verbatim>\<open>getPreferredQuote\<close> (\<^verbatim>\<open>../utils/get-preferred-quote.js\<close>) is not
  among the source files. The spec (section 4.1, AttrNode) has it scan the literal
  characters for the quote character least likely to require escaping, defaulting to the
  configured preferred quote on a tie: the preferred quote is kept unless it occurs more
  often than the alternate one.
\<close>

definition getPreferredQuote :: "string \<Rightarrow> bool \<Rightarrow> char" where
  "getPreferredQuote text preferSingle =
     (let preferred = (if preferSingle then SQUOTE else DQUOTE);
          alternate = (if preferSingle then DQUOTE else SQUOTE)
      in if count_list text preferred > count_list text alternate then alternate else preferred)"

section \<open>Document fragments\<close>

text \<open>
  Modelled from the spec: the document builders (\<^verbatim>\<open>../document/builders.js\<close>) are not among
  the source files. The spec (section 2) lists the vocabulary: group, indent, line, softline
  and hardline, fill, ifBreak and join; the printer also imports dedent. A document is a
  string, an array of documents or one of the builder objects. A line object carries the
  flags \<^verbatim>\<open>soft\<close>, \<^verbatim>\<open>hard\<close> and \<^verbatim>\<open>literal\<close>; the printer itself writes the object
  \<^verbatim>\<open>{ type: "line", hard: true }\<close> in the Template case.
\<close>

datatype line_kind = Plain | Soft | Hard | Literal

datatype doc =
    Str string
  | Undefined
  | Concat "doc list"
  | Group doc
  | Indent doc
  | Dedent doc
  | Fill "doc list"
  | IfBreak doc doc
  | LineDoc line_kind
  | BreakParent

abbreviation line :: doc where "line \<equiv> LineDoc Plain"
abbreviation softline :: doc where "softline \<equiv> LineDoc Soft"
abbreviation hardline :: doc where "hardline \<equiv> Concat [LineDoc Hard, BreakParent]"
abbreviation literalline :: doc where "literalline \<equiv> Concat [LineDoc Literal, BreakParent]"

text \<open>\<^verbatim>\<open>join(separator, docs)\<close>: the array of the documents with the separator between them.\<close>

fun join :: "doc \<Rightarrow> doc list \<Rightarrow> doc list" where
  "join sep [] = []"
| "join sep [d] = [d]"
| "join sep (d # e # ds) = d # sep # join sep (e # ds)"

text \<open>A document in a condition: the empty string and \<^verbatim>\<open>undefined\<close> are falsy.\<close>

definition truthy :: "doc \<Rightarrow> bool" where
  "truthy d \<longleftrightarrow> d \<noteq> Str [] \<and> d \<noteq> Undefined"

text \<open>
  \<^verbatim>\<open>replaceEndOfLine(text)\<close> (\<^verbatim>\<open>../document/utils.js\<close>) on a string: its lines joined by
  literal line breaks.
\<close>

definition replaceEndOfLine :: "string \<Rightarrow> doc" where
  "replaceEndOfLine text = Concat (join literalline (map Str (split_char NL text)))"

section \<open>The syntax tree\<close>

text \<open>
  The nodes the printer dispatches on, with the fields it reads. Every node keeps its
  source span; \<^verbatim>\<open>locStart\<close> and \<^verbatim>\<open>locEnd\<close> (\<^verbatim>\<open>./loc.js\<close>) read its offsets.
\<close>

record loc =
  loc_start :: int
  loc_end :: int

record strip_flags =
  strip_open :: bool
  strip_close :: bool

text \<open>A path: the segments and the original spelling.\<close>

record path_expression =
  original :: string
  parts :: "string list"

text \<open>The three kinds that share the first case of the dispatch.\<close>

datatype body_kind = BlockK | ProgramK | TemplateK

text \<open>
  The path of a BlockStatement is kept as a path: the printer reads its \<^verbatim>\<open>original\<close> and
  \<^verbatim>\<open>parts\<close> directly. A BlockStatement has neither \<^verbatim>\<open>escaped\<close> nor \<^verbatim>\<open>strip\<close>. The value of
  a NumberLiteral is kept as the string that \<^verbatim>\<open>String(value)\<close> yields. \<open>OtherNode t\<close> is a
  node whose type tag \<open>t\<close> is none of the cases of the dispatch.
\<close>

datatype node =
    BodyNode loc body_kind "node list" "string list"
  | ElementNode loc string "node list" "node list" "node list" "node list" "string list" bool
  | BlockStatement loc path_expression "node list" "node option" node "node option"
      strip_flags strip_flags strip_flags
  | ElementModifierStatement loc node "node list" "node option"
  | MustacheStatement loc node "node list" "node option" bool strip_flags
  | SubExpression loc node "node list" "node option"
  | AttrNode loc string node
  | ConcatStatement loc "node list"
  | Hash loc "node list"
  | HashPair loc string node
  | TextNode loc string
  | MustacheCommentStatement loc string
  | PathExpression loc path_expression
  | BooleanLiteral loc bool
  | CommentStatement loc string
  | StringLiteral loc string
  | NumberLiteral loc string
  | UndefinedLiteral loc
  | NullLiteral loc
  | OtherNode loc string

fun node_type :: "node \<Rightarrow> string" where
  "node_type (BodyNode l k body bps) =
     (case k of BlockK \<Rightarrow> ''Block'' | ProgramK \<Rightarrow> ''Program'' | TemplateK \<Rightarrow> ''Template'')"
| "node_type (ElementNode l tag attrs mods cmts children bps sc) = ''ElementNode''"
| "node_type (BlockStatement l pth params hash program inv_b ost ist cst) = ''BlockStatement''"
| "node_type (ElementModifierStatement l pth params hash) = ''ElementModifierStatement''"
| "node_type (MustacheStatement l pth params hash esc st) = ''MustacheStatement''"
| "node_type (SubExpression l pth params hash) = ''SubExpression''"
| "node_type (AttrNode l name v) = ''AttrNode''"
| "node_type (ConcatStatement l ps) = ''ConcatStatement''"
| "node_type (Hash l pairs) = ''Hash''"
| "node_type (HashPair l key v) = ''HashPair''"
| "node_type (TextNode l chars) = ''TextNode''"
| "node_type (MustacheCommentStatement l v) = ''MustacheCommentStatement''"
| "node_type (PathExpression l pe) = ''PathExpression''"
| "node_type (BooleanLiteral l b) = ''BooleanLiteral''"
| "node_type (CommentStatement l v) = ''CommentStatement''"
| "node_type (StringLiteral l v) = ''StringLiteral''"
| "node_type (NumberLiteral l v) = ''NumberLiteral''"
| "node_type (UndefinedLiteral l) = ''UndefinedLiteral''"
| "node_type (NullLiteral l) = ''NullLiteral''"
| "node_type (OtherNode l t) = t"

fun node_loc :: "node \<Rightarrow> loc" where
  "node_loc (BodyNode l k body bps) = l"
| "node_loc (ElementNode l tag attrs mods cmts children bps sc) = l"
| "node_loc (BlockStatement l pth params hash program inv_b ost ist cst) = l"
| "node_loc (ElementModifierStatement l pth params hash) = l"
| "node_loc (MustacheStatement l pth params hash esc st) = l"
| "node_loc (SubExpression l pth params hash) = l"
| "node_loc (AttrNode l name v) = l"
| "node_loc (ConcatStatement l ps) = l"
| "node_loc (Hash l pairs) = l"
| "node_loc (HashPair l key v) = l"
| "node_loc (TextNode l chars) = l"
| "node_loc (MustacheCommentStatement l v) = l"
| "node_loc (PathExpression l pe) = l"
| "node_loc (BooleanLiteral l b) = l"
| "node_loc (CommentStatement l v) = l"
| "node_loc (StringLiteral l v) = l"
| "node_loc (NumberLiteral l v) = l"
| "node_loc (UndefinedLiteral l) = l"
| "node_loc (NullLiteral l) = l"
| "node_loc (OtherNode l t) = l"

definition locStart :: "node \<Rightarrow> int" where
  "locStart n = loc_start (node_loc n)"

definition locEnd :: "node \<Rightarrow> int" where
  "locEnd n = loc_end (node_loc n)"

text \<open>
  \<^verbatim>\<open>isWhitespaceNode\<close> (\<^verbatim>\<open>./utils.js\<close>): a TextNode without a character outside \<^verbatim>\<open>\s\<close>.
\<close>

fun isWhitespaceNode :: "node \<Rightarrow> bool" where
  "isWhitespaceNode (TextNode l chars) = list_all js_whitespace chars"
| "isWhitespaceNode n = False"

text \<open>
  Modelled from the spec: \<^verbatim>\<open>isVoidElement\<close> (\<^verbatim>\<open>./utils.js\<close>) is not among the source files.
  The spec (section 3) gives an ElementNode a flag marking self-closing and void tags.
\<close>

fun isVoidElement :: "node \<Rightarrow> bool" where
  "isVoidElement (ElementNode l tag attrs mods cmts children bps sc) = sc"
| "isVoidElement n = False"

section \<open>The path to the node being printed\<close>

text \<open>
  The printer is handed an \<^verbatim>\<open>AstPath\<close>: the node and the way down to it from the root. One
  frame per ancestor, the parent first: the ancestor, the property through which the path
  leaves it, and, when that property holds an array, the array and the index in it.
\<close>

record frame =
  f_node :: node
  f_prop :: string
  f_siblings :: "node list option"
  f_index :: nat

type_synonym ast_path = "frame list"

definition getParentNode :: "ast_path \<Rightarrow> nat \<Rightarrow> node option" where
  "getParentNode p depth = (if depth < length p then Some (f_node (p ! depth)) else None)"

definition path_parent :: "ast_path \<Rightarrow> node option" where
  "path_parent p = getParentNode p 0"

definition path_grandparent :: "ast_path \<Rightarrow> node option" where
  "path_grandparent p = getParentNode p 1"

definition path_siblings :: "ast_path \<Rightarrow> node list option" where
  "path_siblings p = (case p of [] \<Rightarrow> None | f # _ \<Rightarrow> f_siblings f)"

definition path_index :: "ast_path \<Rightarrow> nat" where
  "path_index p = (case p of [] \<Rightarrow> 0 | f # _ \<Rightarrow> f_index f)"

definition isFirst :: "ast_path \<Rightarrow> bool" where
  "isFirst p \<longleftrightarrow> path_siblings p \<noteq> None \<and> path_index p = 0"

definition isLast :: "ast_path \<Rightarrow> bool" where
  "isLast p \<longleftrightarrow> (case path_siblings p of None \<Rightarrow> False | Some sibs \<Rightarrow> Suc (path_index p) = length sibs)"

definition path_next :: "ast_path \<Rightarrow> node option" where
  "path_next p =
     (case path_siblings p of None \<Rightarrow> None
      | Some sibs \<Rightarrow> if Suc (path_index p) < length sibs then Some (sibs ! Suc (path_index p)) else None)"

definition path_previous :: "ast_path \<Rightarrow> node option" where
  "path_previous p =
     (case path_siblings p of None \<Rightarrow> None
      | Some sibs \<Rightarrow>
          if 0 < path_index p \<and> path_index p - 1 < length sibs then Some (sibs ! (path_index p - 1))
          else None)"

definition next_type :: "ast_path \<Rightarrow> string option" where
  "next_type p = map_option node_type (path_next p)"

definition previous_type :: "ast_path \<Rightarrow> string option" where
  "previous_type p = map_option node_type (path_previous p)"

definition parent_type :: "ast_path \<Rightarrow> string option" where
  "parent_type p = map_option node_type (path_parent p)"

record options =
  htmlWhitespaceSensitivity :: string
  singleQuote :: bool
  originalText :: string

section \<open>Text runs\<close>

definition NEWLINES_TO_PRESERVE_MAX :: nat where
  "NEWLINES_TO_PRESERVE_MAX = 2"

definition countNewLines :: "string \<Rightarrow> nat" where
  "countNewLines s = length (split_char NL s) - 1"

text \<open>
  \<^verbatim>\<open>/^([^\S\n\r]*[\n\r])+/g\<close>: the first match is the longest prefix made of blanks and line
  ends that stops at a line end (the empty string when there is none).
\<close>

definition leading_newlines_match :: "string \<Rightarrow> string" where
  "leading_newlines_match s = rev (dropWhile js_blank (rev (takeWhile js_whitespace s)))"

definition countLeadingNewLines :: "string \<Rightarrow> nat" where
  "countLeadingNewLines s = countNewLines (leading_newlines_match s)"

text \<open>
  \<^verbatim>\<open>/([\n\r][^\S\n\r]*)+$/g\<close>: the first match starts at the first line end of the whitespace
  that closes the string and runs to its end.
\<close>

definition trailing_newlines_match :: "string \<Rightarrow> string" where
  "trailing_newlines_match s = dropWhile js_blank (rev (takeWhile js_whitespace (rev s)))"

definition countTrailingNewLines :: "string \<Rightarrow> nat" where
  "countTrailingNewLines s = countNewLines (trailing_newlines_match s)"

definition generateHardlines :: "nat \<Rightarrow> doc list" where
  "generateHardlines number = replicate (min number NEWLINES_TO_PRESERVE_MAX) hardline"

definition getTextValueParts :: "string \<Rightarrow> doc list" where
  "getTextValueParts v = join line (map Str (html_split v))"

definition getCurrentAttributeName :: "ast_path \<Rightarrow> string option" where
  "getCurrentAttributeName p =
     (case getParentNode p 0 of
        Some (AttrNode l name v) \<Rightarrow> Some (toLowerCase name)
      | _ \<Rightarrow>
        (case getParentNode p 1 of
           Some (AttrNode l name v) \<Rightarrow> Some (toLowerCase name)
         | _ \<Rightarrow> None))"

text \<open>The first statement of the TextNode case: the escaping of the delimiters.\<close>

definition TextNode_text :: "string \<Rightarrow> string" where
  "TextNode_text chars = replaceAll ''{_{'' ''{{'' (replaceAll ''{{'' (BACKSLASH # ''{{'') chars)"

text \<open>The TextNode case inside a \<^verbatim>\<open>class\<close> attribute.\<close>

definition print_TextNode_class :: "ast_path \<Rightarrow> string \<Rightarrow> doc" where
  "print_TextNode_class p text =
     (let formattedClasses = join_strings '' '' (split_runs js_whitespace (js_trim text));
          inConcat = (parent_type p = Some ''ConcatStatement'');
          leadingSpace =
            (inConcat \<and>
             (previous_type p = Some ''MustacheStatement'' \<or> previous_type p = Some ''TextNode'') \<and>
             (case text of [] \<Rightarrow> False | c # _ \<Rightarrow> js_whitespace c));
          trailingSpace =
            (inConcat \<and>
             (next_type p = Some ''MustacheStatement'' \<or> next_type p = Some ''TextNode'') \<and>
             (case rev text of [] \<Rightarrow> False | c # _ \<Rightarrow> js_whitespace c) \<and>
             formattedClasses \<noteq> [])
      in Concat [if leadingSpace then line else Str [], Str formattedClasses,
                 if trailingSpace then line else Str []])"

text \<open>The TextNode case when \<^verbatim>\<open>htmlWhitespaceSensitivity\<close> is not \<^verbatim>\<open>"ignore"\<close>.\<close>

definition print_TextNode_strict :: "ast_path \<Rightarrow> string \<Rightarrow> doc" where
  "print_TextNode_strict p text =
     (let shouldTrimTrailingNewlines = (isLast p \<and> parent_type p = Some ''Template'');
          shouldTrimLeadingNewlines = (isFirst p \<and> parent_type p = Some ''Template'')
      in if isWhitespaceOnly text then
           (if shouldTrimLeadingNewlines \<or> shouldTrimTrailingNewlines then Str []
            else
              let newlines = countNewLines text;
                  breaks = (if newlines \<noteq> 0 then generateHardlines newlines else [line])
              in Concat (if isLast p then map Dedent breaks else breaks))
         else
           let leadingWhitespace = getLeadingWhitespace text;
               leadBreaks =
                 (if leadingWhitespace \<noteq> [] then
                    (let leadingNewlines = countNewLines leadingWhitespace
                     in if leadingNewlines \<noteq> 0 then generateHardlines leadingNewlines else [line])
                  else []);
               text1 = (if leadingWhitespace \<noteq> [] then drop (length leadingWhitespace) text else text);
               tailingWhitespace = getTrailingWhitespace text1;
               trailBreaks =
                 (if tailingWhitespace \<noteq> [] \<and> \<not> shouldTrimTrailingNewlines then
                    (let trailingNewlines = countNewLines tailingWhitespace;
                         breaks = (if trailingNewlines \<noteq> 0 then generateHardlines trailingNewlines
                                   else [line])
                     in if isLast p then map Dedent breaks else breaks)
                  else []);
               text2 = (if tailingWhitespace \<noteq> [] then take (length text1 - length tailingWhitespace) text1
                        else text1)
           in Concat (leadBreaks @ [Fill (getTextValueParts text2)] @ trailBreaks))"

text \<open>The TextNode case when \<^verbatim>\<open>htmlWhitespaceSensitivity\<close> is \<^verbatim>\<open>"ignore"\<close>.\<close>

definition print_TextNode_ignore :: "ast_path \<Rightarrow> string \<Rightarrow> doc" where
  "print_TextNode_ignore p text =
     (let whitespaceOnly = isWhitespaceOnly text;
          lineBreaksCount = countNewLines text;
          leading0 = countLeadingNewLines text;
          trailing0 = countTrailingNewLines text
      in if (isFirst p \<or> isLast p) \<and> whitespaceOnly \<and>
            (parent_type p = Some ''Block'' \<or> parent_type p = Some ''ElementNode'' \<or>
             parent_type p = Some ''Template'')
         then Str []
         else
           let collapse = (whitespaceOnly \<and> lineBreaksCount \<noteq> 0);
               trailing1 =
                 (if collapse then 0
                  else if next_type p = Some ''BlockStatement'' \<or> next_type p = Some ''ElementNode''
                  then max trailing0 1 else trailing0);
               leading1 =
                 (if collapse then min lineBreaksCount NEWLINES_TO_PRESERVE_MAX
                  else if previous_type p = Some ''BlockStatement'' \<or> previous_type p = Some ''ElementNode''
                  then max leading0 1 else leading0);
               trailingSpace1 =
                 (if trailing1 = 0 \<and> next_type p = Some ''MustacheStatement'' then '' '' else []);
               leadingSpace1 =
                 (if leading1 = 0 \<and> previous_type p = Some ''MustacheStatement'' then '' '' else []);
               leading2 = (if isFirst p then 0 else leading1);
               leadingSpace2 = (if isFirst p then [] else leadingSpace1);
               trailing2 = (if isLast p then 0 else trailing1);
               trailingSpace2 = (if isLast p then [] else trailingSpace1);
               text1 = (if hasLeadingWhitespace text then leadingSpace2 @ trimStart text else text);
               text2 = (if hasTrailingWhitespace text1 then trimEnd text1 @ trailingSpace2 else text1)
           in Concat (generateHardlines leading2 @ [Fill (getTextValueParts text2)] @
                      generateHardlines trailing2))"

definition print_TextNode :: "options \<Rightarrow> ast_path \<Rightarrow> string \<Rightarrow> doc" where
  "print_TextNode opts p chars =
     (let text = TextNode_text chars;
          attrName = getCurrentAttributeName p
      in if attrName \<noteq> None \<and> attrName \<noteq> Some [] then
           (if attrName = Some ''class'' then print_TextNode_class p text else replaceEndOfLine text)
         else if htmlWhitespaceSensitivity opts \<noteq> ''ignore'' then print_TextNode_strict p text
         else print_TextNode_ignore p text)"

section \<open>The cases without children\<close>

definition print_MustacheCommentStatement :: "options \<Rightarrow> loc \<Rightarrow> string \<Rightarrow> doc" where
  "print_MustacheCommentStatement opts l v =
     (if startsWith v ''__uncomment__'' \<and> endsWith v ''__uncomment__'' then
        Concat [Str (replaceAll ''__uncomment__'' [] v)]
      else
        let isLeftWhiteSpaceSensitive = (charAt (originalText opts) (loc_start l + 2) = ''~'');
            isRightWhitespaceSensitive = (charAt (originalText opts) (loc_end l - 3) = ''~'');
            dashes = (if js_includes v ''}}'' then ''--'' else [])
        in Concat [Str ''{{'', Str (if isLeftWhiteSpaceSensitive then ''~'' else []), Str ''!'',
                   Str dashes, Str v, Str dashes,
                   Str (if isRightWhitespaceSensitive then ''~'' else []), Str ''}}''])"

definition printStringLiteral :: "string \<Rightarrow> doc" where
  "printStringLiteral v =
     (let quote = getPreferredQuote v True
      in Concat [Str [quote], Str (replaceAll [quote] [BACKSLASH, quote] v), Str [quote]])"

definition print_PathExpression :: "path_expression \<Rightarrow> doc" where
  "print_PathExpression pe = Str (original pe)"

definition printBlockParams :: "string list \<Rightarrow> doc" where
  "printBlockParams bps = Concat [Str ''as |'', Str (join_strings '' '' bps), Str ''|'']"

definition printStartingTagEndMarker :: doc where
  "printStartingTagEndMarker = IfBreak (Concat [softline, Str ''>'']) (Str ''>'')"

text \<open>
  The mustache delimiters. \<open>escaped\<close> and \<open>strip\<close> are the fields \<^verbatim>\<open>node.escaped\<close> and
  \<^verbatim>\<open>node.strip\<close>, \<open>None\<close> on a node that has no such field.
\<close>

definition printOpeningMustache :: "bool option \<Rightarrow> strip_flags option \<Rightarrow> doc" where
  "printOpeningMustache escaped strip =
     Concat [Str (if escaped = Some False then ''{{{'' else ''{{''),
             Str (case strip of Some st \<Rightarrow> if strip_open st then ''~'' else [] | None \<Rightarrow> [])]"

definition printClosingMustache :: "bool option \<Rightarrow> strip_flags option \<Rightarrow> doc" where
  "printClosingMustache escaped strip =
     Concat [Str (case strip of Some st \<Rightarrow> if strip_close st then ''~'' else [] | None \<Rightarrow> []),
             Str (if escaped = Some False then ''}}}'' else ''}}'')]"

definition printOpeningBlockOpeningMustache :: "strip_flags \<Rightarrow> doc" where
  "printOpeningBlockOpeningMustache openStrip =
     Concat [printOpeningMustache None None, Str (if strip_open openStrip then ''~'' else []), Str ''#'']"

definition printOpeningBlockClosingMustache :: "strip_flags \<Rightarrow> doc" where
  "printOpeningBlockClosingMustache openStrip =
     Concat [Str (if strip_close openStrip then ''~'' else []), printClosingMustache None None]"

definition printClosingBlockOpeningMustache :: "strip_flags \<Rightarrow> doc" where
  "printClosingBlockOpeningMustache closeStrip =
     Concat [printOpeningMustache None None, Str (if strip_open closeStrip then ''~'' else []), Str ''/'']"

definition printClosingBlockClosingMustache :: "strip_flags \<Rightarrow> doc" where
  "printClosingBlockClosingMustache closeStrip =
     Concat [Str (if strip_close closeStrip then ''~'' else []), printClosingMustache None None]"

definition printInverseBlockOpeningMustache :: "strip_flags \<Rightarrow> doc" where
  "printInverseBlockOpeningMustache inverseStrip =
     Concat [printOpeningMustache None None, Str (if strip_open inverseStrip then ''~'' else [])]"

definition printInverseBlockClosingMustache :: "strip_flags \<Rightarrow> doc" where
  "printInverseBlockClosingMustache inverseStrip =
     Concat [Str (if strip_close inverseStrip then ''~'' else []), printClosingMustache None None]"

definition printElseBlock :: "options \<Rightarrow> strip_flags \<Rightarrow> doc" where
  "printElseBlock opts inverseStrip =
     Concat [if htmlWhitespaceSensitivity opts = ''ignore'' then hardline else Str [],
             printInverseBlockOpeningMustache inverseStrip, Str ''else'',
             printInverseBlockClosingMustache inverseStrip]"

section \<open>Failures\<close>

text \<open>
  The printer throws \<^verbatim>\<open>UnexpectedNodeError\<close> in the default case of its dispatch. Reading a
  field of \<^verbatim>\<open>undefined\<close> (the body of a branch that is not a Block, the pairs of a hash that
  is not a Hash) is a \<^verbatim>\<open>TypeError\<close> of the language. Either one ends the whole print.
\<close>

datatype error = UnexpectedNodeError string | TypeError

definition bind_res :: "error + 'a \<Rightarrow> ('a \<Rightarrow> error + 'b) \<Rightarrow> error + 'b" where
  "bind_res m f = (case m of Inl e \<Rightarrow> Inl e | Inr x \<Rightarrow> f x)"

section \<open>The printer\<close>

fun node_body :: "node \<Rightarrow> node list option" where
  "node_body (BodyNode l k body bps) = Some body"
| "node_body n = None"

text \<open>\<^verbatim>\<open>node.blockParams\<close> when it is an array, the empty array otherwise.\<close>

fun node_blockParams :: "node \<Rightarrow> string list" where
  "node_blockParams (BodyNode l k body bps) = bps"
| "node_blockParams (ElementNode l tag attrs mods cmts children bps sc) = bps"
| "node_blockParams n = []"

fun hash_pairs :: "node \<Rightarrow> node list option" where
  "hash_pairs (Hash l pairs) = Some pairs"
| "hash_pairs n = None"

text \<open>\<^verbatim>\<open>path.parts[0]\<close>, and the document that the value makes in an array.\<close>

definition parts0 :: "path_expression \<Rightarrow> string option" where
  "parts0 pe = (case parts pe of [] \<Rightarrow> None | x # _ \<Rightarrow> Some x)"

definition doc_of_segment :: "string option \<Rightarrow> doc" where
  "doc_of_segment x = (case x of None \<Rightarrow> Undefined | Some s \<Rightarrow> Str s)"

definition enter :: "node \<Rightarrow> string \<Rightarrow> ast_path \<Rightarrow> ast_path" where
  "enter parent prop p = \<lparr>f_node = parent, f_prop = prop, f_siblings = None, f_index = 0\<rparr> # p"

definition enter_at :: "node \<Rightarrow> string \<Rightarrow> node list \<Rightarrow> nat \<Rightarrow> ast_path \<Rightarrow> ast_path" where
  "enter_at parent prop sibs i p =
     \<lparr>f_node = parent, f_prop = prop, f_siblings = Some sibs, f_index = i\<rparr> # p"

text \<open>
  \<^verbatim>\<open>grandparent.inverse.body[0] === node\<close> compares objects: the node is that object when the
  path reaches it as element 0 of the \<^verbatim>\<open>body\<close> of its parent, and reaches the parent as the
  \<^verbatim>\<open>inverse\<close> of the grandparent.
\<close>

definition is_first_of_inverse :: "ast_path \<Rightarrow> bool" where
  "is_first_of_inverse p =
     (case p of
        f0 # f1 # _ \<Rightarrow>
          f_prop f1 = ''inverse'' \<and> f_prop f0 = ''body'' \<and> f_siblings f0 \<noteq> None \<and> f_index f0 = 0
      | _ \<Rightarrow> False)"

text \<open>\<^verbatim>\<open>isElseIfLike(path)\<close>, for a BlockStatement with the path \<open>pth\<close>.\<close>

definition isElseIfLike :: "ast_path \<Rightarrow> path_expression \<Rightarrow> error + bool" where
  "isElseIfLike p pth =
     (case path_grandparent p of
        Some (BlockStatement gl gpth gparams ghash gprogram (Some ginv) gost gist gcst) \<Rightarrow>
          (case node_body ginv of
             None \<Rightarrow> Inl TypeError
           | Some gbody \<Rightarrow>
               Inr (length gbody = 1 \<and> is_first_of_inverse p \<and> parts0 pth = parts0 gpth))
      | _ \<Rightarrow> Inr False)"

text \<open>The \<^verbatim>\<open>inverseStrip\<close> of the grandparent, which \<^verbatim>\<open>printElseIfLikeBlock\<close> reads.\<close>

definition grandparent_inverseStrip :: "ast_path \<Rightarrow> error + strip_flags" where
  "grandparent_inverseStrip p =
     (case path_grandparent p of
        Some (BlockStatement gl gpth gparams ghash gprogram ginv gost gist gcst) \<Rightarrow> Inr gist
      | _ \<Rightarrow> Inl TypeError)"

text \<open>\<^verbatim>\<open>blockStatementHasOnlyWhitespaceInProgram(node)\<close>, from the \<^verbatim>\<open>program\<close> of the block.\<close>

definition blockStatementHasOnlyWhitespaceInProgram :: "node \<Rightarrow> error + bool" where
  "blockStatementHasOnlyWhitespaceInProgram program =
     (case node_body program of
        None \<Rightarrow> Inl TypeError
      | Some body \<Rightarrow> Inr (list_all isWhitespaceNode body))"

text \<open>\<^verbatim>\<open>blockStatementHasElseIfLike(node)\<close>, from the path and the \<^verbatim>\<open>inverse\<close> of the block.\<close>

definition blockStatementHasElseIfLike :: "path_expression \<Rightarrow> node option \<Rightarrow> error + bool" where
  "blockStatementHasElseIfLike pth inv_b =
     (case inv_b of
        None \<Rightarrow> Inr False
      | Some inv_n \<Rightarrow>
          (case node_body inv_n of
             None \<Rightarrow> Inl TypeError
           | Some body \<Rightarrow>
               Inr (case body of
                      [BlockStatement il ipth iparams ihash iprogram iinv iost iist icst] \<Rightarrow>
                        parts0 ipth = parts0 pth
                    | _ \<Rightarrow> False)))"

text \<open>
  The first statement of \<^verbatim>\<open>printCloseBlock\<close> assigns to the path of the node: a spelling
  that starts with \<^verbatim>\<open>"> "\<close> loses every \<^verbatim>\<open>"> "\<close>, and the segments become the new spelling alone.
\<close>

definition printCloseBlock_path :: "path_expression \<Rightarrow> path_expression" where
  "printCloseBlock_path pth =
     (if startsWith (original pth) ''> '' then
        (let spelling = replaceAll ''> '' [] (original pth)
         in pth\<lparr>original := spelling, parts := [spelling]\<rparr>)
      else pth)"

text \<open>
  The documents that the helper functions build, from the documents of the children. The
  children are printed by \<open>print\<close> below, in the order of the source.
\<close>

definition printStartingTag_doc :: "string \<Rightarrow> (node \<times> doc) list \<Rightarrow> string list \<Rightarrow> doc list" where
  "printStartingTag_doc tag entries bps =
     (let attributes = map (\<lambda>(n, d). Concat [line, d]) (sort_key (\<lambda>(n, d). locStart n) entries)
      in [Str ''<'', Str tag,
          Indent (Concat (if bps \<noteq> [] then attributes @ [line, printBlockParams bps] else attributes)),
          printStartingTagEndMarker])"

definition printChildren_doc :: "options \<Rightarrow> doc list \<Rightarrow> doc" where
  "printChildren_doc opts ds =
     Concat (if htmlWhitespaceSensitivity opts = ''ignore'' then
               (case ds of [] \<Rightarrow> [] | d # ds' \<Rightarrow> Concat [softline, d] # ds')
             else ds)"

definition printOpenBlock_doc :: "strip_flags \<Rightarrow> doc \<Rightarrow> doc \<Rightarrow> string list \<Rightarrow> doc" where
  "printOpenBlock_doc openStrip pathDoc paramsDoc bps =
     (let prts = (if truthy paramsDoc then [Group paramsDoc] else []) @
                 (if bps \<noteq> [] then [printBlockParams bps] else [])
      in Group (Concat [printOpeningBlockOpeningMustache openStrip, pathDoc,
                        if prts \<noteq> [] then Indent (Concat [line, Concat (join line prts)]) else Str [],
                        softline, printOpeningBlockClosingMustache openStrip]))"

definition printElseIfLikeBlock_doc :: "strip_flags \<Rightarrow> string option \<Rightarrow> doc \<Rightarrow> string list \<Rightarrow> doc" where
  "printElseIfLikeBlock_doc gInverseStrip name paramsDoc bps =
     Group (Concat [printInverseBlockOpeningMustache gInverseStrip,
                    Concat [Str ''else'', Str '' '', doc_of_segment name],
                    Indent (Concat ([line, Group paramsDoc] @
                                    (if bps \<noteq> [] then [line, printBlockParams bps] else []))),
                    softline, printInverseBlockClosingMustache gInverseStrip])"

definition printProgram_doc :: "options \<Rightarrow> doc \<Rightarrow> doc" where
  "printProgram_doc opts program =
     (if htmlWhitespaceSensitivity opts = ''ignore'' then Indent (Concat [hardline, program])
      else Indent program)"

definition printInverse_doc :: "options \<Rightarrow> strip_flags \<Rightarrow> bool \<Rightarrow> bool \<Rightarrow> doc \<Rightarrow> doc" where
  "printInverse_doc opts inverseStrip hasElseIfLike hasElse inv_d =
     (let printed = (if htmlWhitespaceSensitivity opts = ''ignore'' then Concat [hardline, inv_d] else inv_d)
      in if hasElseIfLike then printed
         else if hasElse then Concat [printElseBlock opts inverseStrip, Indent printed]
         else Str [])"

definition printCloseBlock_doc :: "options \<Rightarrow> strip_flags \<Rightarrow> bool \<Rightarrow> doc \<Rightarrow> doc" where
  "printCloseBlock_doc opts closeStrip onlyWhitespace pathDoc =
     (if htmlWhitespaceSensitivity opts = ''ignore'' then
        Concat [if onlyWhitespace then softline else hardline,
                printClosingBlockOpeningMustache closeStrip, pathDoc,
                printClosingBlockClosingMustache closeStrip]
      else Concat [printClosingBlockOpeningMustache closeStrip, pathDoc,
                   printClosingBlockClosingMustache closeStrip])"

definition printPathAndParams_doc :: "doc \<Rightarrow> doc \<Rightarrow> doc" where
  "printPathAndParams_doc pathDoc paramsDoc =
     (if \<not> truthy paramsDoc then pathDoc
      else Concat [Indent (Concat [pathDoc, line, paramsDoc]), softline])"

definition printSubExpressionPathAndParams_doc :: "doc \<Rightarrow> doc \<Rightarrow> doc" where
  "printSubExpressionPathAndParams_doc printed params =
     (if \<not> truthy params then printed
      else Indent (Concat [printed, line, Group params]))"

text \<open>The AttrNode case: whether the attribute has no value, and the quote around the value.\<close>

definition attr_without_value :: "node \<Rightarrow> bool" where
  "attr_without_value v =
     (case v of TextNode vl chars \<Rightarrow> chars = [] \<and> loc_start vl = loc_end vl | _ \<Rightarrow> False)"

definition part_chars :: "node \<Rightarrow> string" where
  "part_chars part = (case part of TextNode pl chars \<Rightarrow> chars | _ \<Rightarrow> [])"

definition attr_quote :: "options \<Rightarrow> node \<Rightarrow> string" where
  "attr_quote opts v =
     (case v of
        TextNode vl chars \<Rightarrow> [getPreferredQuote chars (singleQuote opts)]
      | ConcatStatement cl ps \<Rightarrow> [getPreferredQuote (concat (map part_chars ps)) (singleQuote opts)]
      | _ \<Rightarrow> [])"

definition print_AttrNode_doc :: "string \<Rightarrow> string \<Rightarrow> doc \<Rightarrow> doc" where
  "print_AttrNode_doc name quote valueDoc =
     Concat [Str name, Str ''='', Str quote,
             if name = ''class'' \<and> quote \<noteq> [] then Group (Indent valueDoc) else valueDoc,
             Str quote]"

text \<open>
  \<^verbatim>\<open>printParams\<close>, from the results of printing the \<^verbatim>\<open>params\<close> and the \<^verbatim>\<open>hash\<close> of the node:
  the params are printed when there is one, the hash when it has a pair.
\<close>

definition printParams_of ::
  "error + (node list \<times> doc list) \<Rightarrow> error + (node option \<times> doc) \<Rightarrow> node list \<times> node option \<Rightarrow>
   error + ((node list \<times> node option) \<times> doc)" where
  "printParams_of printedParams printedHash = (\<lambda>(params, hash).
     bind_res (if params \<noteq> [] then printedParams else Inr (params, [])) (\<lambda>(params', paramDocs).
     bind_res
       (case hash of
          None \<Rightarrow> Inr (None, [])
        | Some h \<Rightarrow>
            (case hash_pairs h of
               None \<Rightarrow> Inl TypeError
             | Some pairs \<Rightarrow>
                 if pairs \<noteq> [] then bind_res printedHash (\<lambda>(hash', d). Inr (hash', [d]))
                 else Inr (hash, [])))
       (\<lambda>(hash', hashDocs).
     Inr ((params', hash'),
          if paramDocs @ hashDocs = [] then Str [] else Concat (join line (paramDocs @ hashDocs))))))"

text \<open>
  \<open>print opts p n\<close> is the printer on the node \<open>n\<close> reached by the path \<open>p\<close>: the failure, or
  the node as the printer leaves it together with its document. The callback \<^verbatim>\<open>print\<close> that
  the printer calls on a property of the node is the printer itself on the child, with the
  path extended by one frame: \<^verbatim>\<open>path.map(print, prop)\<close> is \<open>print_each\<close> on the array, and
  \<^verbatim>\<open>print(prop)\<close> on a property that may be \<^verbatim>\<open>null\<close> is \<open>print_opt\<close>, the empty string for
  \<^verbatim>\<open>null\<close>.
\<close>

primrec print :: "options \<Rightarrow> ast_path \<Rightarrow> node \<Rightarrow> error + (node \<times> doc)"
  and print_each ::
    "options \<Rightarrow> ast_path \<Rightarrow> node \<Rightarrow> string \<Rightarrow> node list \<Rightarrow> nat \<Rightarrow> node list \<Rightarrow> error + (node list \<times> doc list)"
  and print_opt :: "options \<Rightarrow> ast_path \<Rightarrow> node option \<Rightarrow> error + (node option \<times> doc)"
where
  "print opts p (BodyNode l k body bps) =
     bind_res (print_each opts p (BodyNode l k body bps) ''body'' body 0 body) (\<lambda>(body', ds).
     Inr (BodyNode l k body' bps,
          Group (Concat (if k = TemplateK then ds @ [LineDoc Hard] else ds))))"
| "print opts p (ElementNode l tag attrs mods cmts children bps sc) =
     (let self = ElementNode l tag attrs mods cmts children bps sc;
          ignore = (htmlWhitespaceSensitivity opts = ''ignore'')
      in
      bind_res (print_each opts p self ''attributes'' attrs 0 attrs) (\<lambda>(attrs', ads).
      bind_res (print_each opts p self ''modifiers'' mods 0 mods) (\<lambda>(mods', mds).
      bind_res (print_each opts p self ''comments'' cmts 0 cmts) (\<lambda>(cmts', cds).
      let startingTag =
            Group (Concat (printStartingTag_doc tag (zip attrs ads @ zip mods mds @ zip cmts cds) bps));
          escapeNextElementNode =
            (if ignore \<and> next_type p = Some ''ElementNode'' then softline else Str []);
          endingTag = Concat [Str ''</'', Str tag, Str ''>'']
      in
      if isVoidElement self then
        Inr (ElementNode l tag attrs' mods' cmts' children bps sc,
             Concat [startingTag, escapeNextElementNode])
      else if children = [] then
        Inr (ElementNode l tag attrs' mods' cmts' children bps sc,
             Concat [startingTag, Indent endingTag, escapeNextElementNode])
      else
        bind_res
          (if ignore \<and> list_all isWhitespaceNode children then Inr (children, Str [])
           else bind_res (print_each opts p self ''children'' children 0 children) (\<lambda>(children', ds).
                Inr (children', printChildren_doc opts ds)))
          (\<lambda>(children', childrenDoc).
        Inr (ElementNode l tag attrs' mods' cmts' children' bps sc,
             if ignore then
               Concat [startingTag, Indent childrenDoc, hardline, Indent endingTag, escapeNextElementNode]
             else
               Concat [startingTag, Indent (Group childrenDoc), Indent endingTag,
                       escapeNextElementNode]))))))"
| "print opts p (BlockStatement l pth params hash program inv_b ost ist cst) =
     (let self = BlockStatement l pth params hash program inv_b ost ist cst in
      bind_res (isElseIfLike p pth) (\<lambda>elseIfLike.
      bind_res (if elseIfLike then grandparent_inverseStrip p else Inr ist) (\<lambda>gInverseStrip.
      bind_res
        (printParams_of (print_each opts p self ''params'' params 0 params)
           (print_opt opts (enter self ''hash'' p) hash) (params, hash))
        (\<lambda>((params', hash'), paramsDoc).
      let opening =
            (if elseIfLike then
               printElseIfLikeBlock_doc gInverseStrip (parts0 pth) paramsDoc (node_blockParams program)
             else
               printOpenBlock_doc ost (print_PathExpression pth) paramsDoc (node_blockParams program))
      in
      bind_res (blockStatementHasOnlyWhitespaceInProgram program) (\<lambda>onlyWhitespace.
      bind_res
        (if onlyWhitespace then Inr (program, Str [])
         else bind_res (print opts (enter self ''program'' p) program) (\<lambda>(program', d).
              Inr (program', printProgram_doc opts d)))
        (\<lambda>(program', programDoc).
      bind_res (print_opt opts (enter self ''inverse'' p) inv_b) (\<lambda>(inv_b', inv_d).
      bind_res (blockStatementHasElseIfLike pth inv_b') (\<lambda>hasElseIfLike.
      let inverseDoc = printInverse_doc opts ist hasElseIfLike (inv_b' \<noteq> None) inv_d in
      if elseIfLike then
        Inr (BlockStatement l pth params' hash' program' inv_b' ost ist cst,
             Concat [opening, programDoc, inverseDoc])
      else
        let pth' = printCloseBlock_path pth in
        bind_res
          (if htmlWhitespaceSensitivity opts = ''ignore''
           then blockStatementHasOnlyWhitespaceInProgram program' else Inr False)
          (\<lambda>onlyWhitespace'.
        Inr (BlockStatement l pth' params' hash' program' inv_b' ost ist cst,
             Concat [opening,
                     Group (Concat [programDoc, inverseDoc,
                                    printCloseBlock_doc opts cst onlyWhitespace'
                                      (print_PathExpression pth')])]))))))))))"
| "print opts p (ElementModifierStatement l pth params hash) =
     (let self = ElementModifierStatement l pth params hash in
      bind_res (print opts (enter self ''path'' p) pth) (\<lambda>(pth', pathDoc).
      bind_res
        (printParams_of (print_each opts p self ''params'' params 0 params)
           (print_opt opts (enter self ''hash'' p) hash) (params, hash))
        (\<lambda>((params', hash'), paramsDoc).
      Inr (ElementModifierStatement l pth' params' hash',
           Group (Concat [Str ''{{'', printPathAndParams_doc pathDoc paramsDoc, Str ''}}''])))))"
| "print opts p (MustacheStatement l pth params hash esc st) =
     (let self = MustacheStatement l pth params hash esc st in
      bind_res (print opts (enter self ''path'' p) pth) (\<lambda>(pth', pathDoc).
      bind_res
        (printParams_of (print_each opts p self ''params'' params 0 params)
           (print_opt opts (enter self ''hash'' p) hash) (params, hash))
        (\<lambda>((params', hash'), paramsDoc).
      Inr (MustacheStatement l pth' params' hash' esc st,
           Group (Concat [printOpeningMustache (Some esc) (Some st),
                          printPathAndParams_doc pathDoc paramsDoc,
                          printClosingMustache (Some esc) (Some st)])))))"
| "print opts p (SubExpression l pth params hash) =
     (let self = SubExpression l pth params hash in
      bind_res (print opts (enter self ''path'' p) pth) (\<lambda>(pth', pathDoc).
      bind_res
        (printParams_of (print_each opts p self ''params'' params 0 params)
           (print_opt opts (enter self ''hash'' p) hash) (params, hash))
        (\<lambda>((params', hash'), paramsDoc).
      Inr (SubExpression l pth' params' hash',
           Group (Concat [Str ''('', printSubExpressionPathAndParams_doc pathDoc paramsDoc,
                          softline, Str '')''])))))"
| "print opts p (AttrNode l name v) =
     (if attr_without_value v then Inr (AttrNode l name v, Str name)
      else
        let quote = attr_quote opts v in
        bind_res (print opts (enter (AttrNode l name v) ''value'' p) v) (\<lambda>(v', valueDoc).
        Inr (AttrNode l name v', print_AttrNode_doc name quote valueDoc)))"
| "print opts p (ConcatStatement l ps) =
     bind_res (print_each opts p (ConcatStatement l ps) ''parts'' ps 0 ps) (\<lambda>(ps', ds).
     Inr (ConcatStatement l ps', Concat ds))"
| "print opts p (Hash l pairs) =
     bind_res (print_each opts p (Hash l pairs) ''pairs'' pairs 0 pairs) (\<lambda>(pairs', ds).
     Inr (Hash l pairs', Concat (join line ds)))"
| "print opts p (HashPair l key v) =
     bind_res (print opts (enter (HashPair l key v) ''value'' p) v) (\<lambda>(v', valueDoc).
     Inr (HashPair l key v', Concat [Str key, Str ''='', valueDoc]))"
| "print opts p (TextNode l chars) = Inr (TextNode l chars, print_TextNode opts p chars)"
| "print opts p (MustacheCommentStatement l v) =
     Inr (MustacheCommentStatement l v, print_MustacheCommentStatement opts l v)"
| "print opts p (PathExpression l pe) = Inr (PathExpression l pe, print_PathExpression pe)"
| "print opts p (BooleanLiteral l b) =
     Inr (BooleanLiteral l b, Str (if b then ''true'' else ''false''))"
| "print opts p (CommentStatement l v) =
     Inr (CommentStatement l v, Concat [Str ''<!--'', Str v, Str ''-->''])"
| "print opts p (StringLiteral l v) = Inr (StringLiteral l v, printStringLiteral v)"
| "print opts p (NumberLiteral l v) = Inr (NumberLiteral l v, Str v)"
| "print opts p (UndefinedLiteral l) = Inr (UndefinedLiteral l, Str ''undefined'')"
| "print opts p (NullLiteral l) = Inr (NullLiteral l, Str ''null'')"
| "print opts p (OtherNode l t) = Inl (UnexpectedNodeError t)"
| "print_each opts p parent prop sibs i [] = Inr ([], [])"
| "print_each opts p parent prop sibs i (n # ns) =
     bind_res (print opts (enter_at parent prop sibs i p) n) (\<lambda>(n', d).
     bind_res (print_each opts p parent prop sibs (Suc i) ns) (\<lambda>(ns', ds).
     Inr (n' # ns', d # ds)))"
| "print_opt opts p None = Inr (None, Str [])"
| "print_opt opts p (Some n) = bind_res (print opts p n) (\<lambda>(n', d). Inr (Some n', d))"

text \<open>\<^verbatim>\<open>printParams(path, print)\<close> on the node \<open>self\<close> with its \<open>params\<close> and \<open>hash\<close>.\<close>

definition printParams ::
  "options \<Rightarrow> ast_path \<Rightarrow> node \<Rightarrow> node list \<Rightarrow> node option \<Rightarrow> error + ((node list \<times> node option) \<times> doc)" where
  "printParams opts p self params hash =
     printParams_of (print_each opts p self ''params'' params 0 params)
       (print_opt opts (enter self ''hash'' p) hash) (params, hash)"

section \<open>The path visitor of the parser, as patched\<close>

text \<open>
  The patch of \<^verbatim>\<open>@glimmer/syntax\<close> shows the start of the PathExpression visitor, which
  computes the segments of a path from the path of the grammar (its original spelling and its
  segments). Two of its three checks under \<^verbatim>\<open>original.indexOf('/') !== -1\<close> have their
  \<^verbatim>\<open>throw\<close> commented out, for the prefix \<^verbatim>\<open>../\<close> and for a \<^verbatim>\<open>.\<close> in the spelling: their bodies
  are empty. The check for the prefix \<^verbatim>\<open>./\<close> still throws. The hunk ends in the branch for
  the path \<^verbatim>\<open>.\<close>; the branches after it are not among the source files and are the
  parameter \<open>rest\<close>.
\<close>

datatype syntax_error = UsingDotSlash | DotPath

definition PathExpression_parts ::
  "(path_expression \<Rightarrow> syntax_error + string list) \<Rightarrow> path_expression \<Rightarrow> syntax_error + string list" where
  "PathExpression_parts rest path =
     (if CHR ''/'' \<in> set (original path) then
        (if take 2 (original path) = ''./'' then Inl UsingDotSlash
         else Inr [join_strings ''/'' (parts path)])
      else if original path = ''.'' then Inl DotPath
      else rest path)"

section \<open>The flat text of a document\<close>

text \<open>
  Modelled from the spec: the layout renderer is not among the source files. The spec
  (section 2) has a group break all or nothing, \<^verbatim>\<open>line\<close> and \<^verbatim>\<open>softline\<close> breakable and
  \<^verbatim>\<open>hardline\<close> forced. \<open>flat_text d\<close> is the text of the document \<open>d\<close> when none of its groups
  breaks: a line is one space, a softline nothing, a hard line a line feed, and \<^verbatim>\<open>ifBreak\<close>
  gives its flat contents. There is no text for \<^verbatim>\<open>undefined\<close>.
\<close>

primrec flat_text :: "doc \<Rightarrow> string option" and flat_texts :: "doc list \<Rightarrow> string option" where
  "flat_text (Str s) = Some s"
| "flat_text Undefined = None"
| "flat_text (Concat ds) = flat_texts ds"
| "flat_text (Group d) = flat_text d"
| "flat_text (Indent d) = flat_text d"
| "flat_text (Dedent d) = flat_text d"
| "flat_text (Fill ds) = flat_texts ds"
| "flat_text (IfBreak b f) = flat_text f"
| "flat_text (LineDoc k) = Some (case k of Plain \<Rightarrow> '' '' | Soft \<Rightarrow> [] | Hard \<Rightarrow> [NL] | Literal \<Rightarrow> [NL])"
| "flat_text BreakParent = Some []"
| "flat_texts [] = Some []"
| "flat_texts (d # ds) =
     (case flat_text d of None \<Rightarrow> None | Some s \<Rightarrow> map_option ((@) s) (flat_texts ds))"

text \<open>
  The blank lines of a text: of the lines that a line feed ends, those that hold nothing but
  blanks.
\<close>

definition blank_lines :: "string \<Rightarrow> nat" where
  "blank_lines s = length (filter (list_all js_blank) (butlast (split_char NL s)))"

section \<open>Trees without a partial block\<close>


section \<open>The closed set of node kinds\<close>

text \<open>
  \<open>supported n\<close>: every node of the tree \<open>n\<close> has a kind that the dispatch of the printer
  names, none is an \<open>OtherNode\<close>.
\<close>

primrec supported :: "node \<Rightarrow> bool"
  and supported_each :: "node list \<Rightarrow> bool"
  and supported_opt :: "node option \<Rightarrow> bool"
where
  "supported (BodyNode l k body bps) = supported_each body"
| "supported (ElementNode l tag attrs mods cmts children bps sc) =
     (supported_each attrs \<and> supported_each mods \<and> supported_each cmts \<and> supported_each children)"
| "supported (BlockStatement l pth params hash program inv_b ost ist cst) =
     (supported_each params \<and> supported_opt hash \<and> supported program \<and> supported_opt inv_b)"
| "supported (ElementModifierStatement l pth params hash) =
     (supported pth \<and> supported_each params \<and> supported_opt hash)"
| "supported (MustacheStatement l pth params hash esc st) =
     (supported pth \<and> supported_each params \<and> supported_opt hash)"
| "supported (SubExpression l pth params hash) =
     (supported pth \<and> supported_each params \<and> supported_opt hash)"
| "supported (AttrNode l name v) = supported v"
| "supported (ConcatStatement l ps) = supported_each ps"
| "supported (Hash l pairs) = supported_each pairs"
| "supported (HashPair l key v) = supported v"
| "supported (TextNode l chars) = True"
| "supported (MustacheCommentStatement l v) = True"
| "supported (PathExpression l pe) = True"
| "supported (BooleanLiteral l b) = True"
| "supported (CommentStatement l v) = True"
| "supported (StringLiteral l v) = True"
| "supported (NumberLiteral l v) = True"
| "supported (UndefinedLiteral l) = True"
| "supported (NullLiteral l) = True"
| "supported (OtherNode l t) = False"
| "supported_each [] = True"
| "supported_each (n # ns) = (supported n \<and> supported_each ns)"
| "supported_opt None = True"
| "supported_opt (Some n) = supported n"

text \<open>
  The fields that the printer reads without a test of the kind, as the parser fills them: the
  \<^verbatim>\<open>program\<close> and the \<^verbatim>\<open>inverse\<close> of a block have a \<^verbatim>\<open>body\<close>, a \<^verbatim>\<open>hash\<close> has \<^verbatim>\<open>pairs\<close>, and an
  element that is void has no child besides whitespace. \<open>typed_node\<close> says so of one node,
  \<open>well_typed\<close> of every node of a tree, \<open>well_typed_path\<close> of every node that a path names.
\<close>

definition typed_hash :: "node option \<Rightarrow> bool" where
  "typed_hash hash = (case hash of None \<Rightarrow> True | Some h \<Rightarrow> hash_pairs h \<noteq> None)"

definition typed_branch :: "node option \<Rightarrow> bool" where
  "typed_branch b = (case b of None \<Rightarrow> True | Some n \<Rightarrow> node_body n \<noteq> None)"

fun typed_node :: "node \<Rightarrow> bool" where
  "typed_node (ElementNode l tag attrs mods cmts children bps sc) =
     (if sc then list_all isWhitespaceNode children else True)"
| "typed_node (BlockStatement l pth params hash program inv_b ost ist cst) =
     (typed_hash hash \<and> node_body program \<noteq> None \<and> typed_branch inv_b)"
| "typed_node (ElementModifierStatement l pth params hash) = typed_hash hash"
| "typed_node (MustacheStatement l pth params hash esc st) = typed_hash hash"
| "typed_node (SubExpression l pth params hash) = typed_hash hash"
| "typed_node n = True"

primrec well_typed :: "node \<Rightarrow> bool"
  and well_typed_each :: "node list \<Rightarrow> bool"
  and well_typed_opt :: "node option \<Rightarrow> bool"
where
  "well_typed (BodyNode l k body bps) = well_typed_each body"
| "well_typed (ElementNode l tag attrs mods cmts children bps sc) =
     (typed_node (ElementNode l tag attrs mods cmts children bps sc) \<and>
      well_typed_each attrs \<and> well_typed_each mods \<and> well_typed_each cmts \<and> well_typed_each children)"
| "well_typed (BlockStatement l pth params hash program inv_b ost ist cst) =
     (typed_node (BlockStatement l pth params hash program inv_b ost ist cst) \<and>
      well_typed_each params \<and> well_typed_opt hash \<and> well_typed program \<and> well_typed_opt inv_b)"
| "well_typed (ElementModifierStatement l pth params hash) =
     (typed_node (ElementModifierStatement l pth params hash) \<and>
      well_typed pth \<and> well_typed_each params \<and> well_typed_opt hash)"
| "well_typed (MustacheStatement l pth params hash esc st) =
     (typed_node (MustacheStatement l pth params hash esc st) \<and>
      well_typed pth \<and> well_typed_each params \<and> well_typed_opt hash)"
| "well_typed (SubExpression l pth params hash) =
     (typed_node (SubExpression l pth params hash) \<and>
      well_typed pth \<and> well_typed_each params \<and> well_typed_opt hash)"
| "well_typed (AttrNode l name v) = well_typed v"
| "well_typed (ConcatStatement l ps) = well_typed_each ps"
| "well_typed (Hash l pairs) = well_typed_each pairs"
| "well_typed (HashPair l key v) = well_typed v"
| "well_typed (TextNode l chars) = True"
| "well_typed (MustacheCommentStatement l v) = True"
| "well_typed (PathExpression l pe) = True"
| "well_typed (BooleanLiteral l b) = True"
| "well_typed (CommentStatement l v) = True"
| "well_typed (StringLiteral l v) = True"
| "well_typed (NumberLiteral l v) = True"
| "well_typed (UndefinedLiteral l) = True"
| "well_typed (NullLiteral l) = True"
| "well_typed (OtherNode l t) = True"
| "well_typed_each [] = True"
| "well_typed_each (n # ns) = (well_typed n \<and> well_typed_each ns)"
| "well_typed_opt None = True"
| "well_typed_opt (Some n) = well_typed n"

definition well_typed_path :: "ast_path \<Rightarrow> bool" where
  "well_typed_path p = list_all (\<lambda>f. typed_node (f_node f)) p"

section \<open>Example trees\<close>

text \<open>Trees for the examples: the options, and the node of \<^verbatim>\<open>{{name}}\<close> at a span.\<close>

definition example_options :: "string \<Rightarrow> string \<Rightarrow> options" where
  "example_options sensitivity source =
     \<lparr>htmlWhitespaceSensitivity = sensitivity, singleQuote = False, originalText = source\<rparr>"

definition example_path :: "int \<Rightarrow> string \<Rightarrow> node" where
  "example_path start name =
     PathExpression \<lparr>loc_start = start, loc_end = start + int (length name)\<rparr>
       \<lparr>original = name, parts = [name]\<rparr>"

definition example_mustache :: "int \<Rightarrow> string \<Rightarrow> node" where
  "example_mustache start name =
     MustacheStatement \<lparr>loc_start = start, loc_end = start + int (length name) + 4\<rparr>
       (example_path (start + 2) name) []
       (Some (Hash \<lparr>loc_start = start + 2 + int (length name), loc_end = start + 2 + int (length name)\<rparr> []))
       True \<lparr>strip_open = False, strip_close = False\<rparr>"

text \<open>The template \<^verbatim>\<open>foo {{x}}\<close>.\<close>

definition example_text_mustache :: node where
  "example_text_mustache =
     BodyNode \<lparr>loc_start = 0, loc_end = 9\<rparr> TemplateK
       [TextNode \<lparr>loc_start = 0, loc_end = 4\<rparr> ''foo '', example_mustache 4 ''x''] []"

text \<open>The template \<^verbatim>\<open>{{x}}\<close>, four line feeds, \<^verbatim>\<open>{{y}}\<close>.\<close>

definition example_blank_lines :: node where
  "example_blank_lines =
     BodyNode \<lparr>loc_start = 0, loc_end = 14\<rparr> TemplateK
       [example_mustache 0 ''x'', TextNode \<lparr>loc_start = 5, loc_end = 9\<rparr> [NL, NL, NL, NL],
        example_mustache 9 ''y''] []"

definition example_blank_lines_path :: ast_path where
  "example_blank_lines_path =
     enter_at example_blank_lines ''body''
       [example_mustache 0 ''x'', TextNode \<lparr>loc_start = 5, loc_end = 9\<rparr> [NL, NL, NL, NL],
        example_mustache 9 ''y''] 1 []"

text \<open>The source of \<open>example_blank_lines\<close>, and the document of the template.\<close>

definition example_blank_lines_source :: string where
  "example_blank_lines_source = ''{{x}}'' @ [NL, NL, NL, NL] @ ''{{y}}''"

definition example_blank_lines_doc :: doc where
  "example_blank_lines_doc =
     Group (Concat [Group (Concat [Concat [Str ''{{'', Str []], Str ''x'', Concat [Str [], Str ''}}'']]),
                    Concat [hardline, hardline],
                    Group (Concat [Concat [Str ''{{'', Str []], Str ''y'', Concat [Str [], Str ''}}'']]),
                    LineDoc Hard])"


definition no_strip :: strip_flags where
  "no_strip = \<lparr>strip_open = False, strip_close = False\<rparr>"





text \<open>
  \<^verbatim>\<open><div a {{! c }} {{m}} b></div>\<close>: two attributes without a value, a modifier and a comment, the
  comment and the modifier written between the two attributes.
\<close>

definition example_element :: node where
  "example_element =
     ElementNode \<lparr>loc_start = 0, loc_end = 30\<rparr> ''div''
       [AttrNode \<lparr>loc_start = 5, loc_end = 6\<rparr> ''a'' (TextNode \<lparr>loc_start = 6, loc_end = 6\<rparr> []),
        AttrNode \<lparr>loc_start = 22, loc_end = 23\<rparr> ''b'' (TextNode \<lparr>loc_start = 23, loc_end = 23\<rparr> [])]
       [ElementModifierStatement \<lparr>loc_start = 16, loc_end = 21\<rparr> (example_path 18 ''m'') []
          (Some (Hash \<lparr>loc_start = 20, loc_end = 20\<rparr> []))]
       [MustacheCommentStatement \<lparr>loc_start = 7, loc_end = 15\<rparr> '' c '']
       [] [] False"

definition example_element_doc :: doc where
  "example_element_doc =
     Concat [Group (Concat [Str ''<'', Str ''div'',
                            Indent (Concat [Concat [line, Str ''a''],
                                            Concat [line, Concat [Str ''{{'', Str [], Str ''!'', Str [],
                                                                  Str '' c '', Str [], Str [], Str ''}}'']],
                                            Concat [line, Group (Concat [Str ''{{'', Str ''m'', Str ''}}''])],
                                            Concat [line, Str ''b'']]),
                            IfBreak (Concat [softline, Str ''>'']) (Str ''>'')]),
             Indent (Concat [Str ''</'', Str ''div'', Str ''>'']), Str []]"




text \<open>
  A template whose second child is a node of a kind that the dispatch does not name, here with
  the type tag \<^verbatim>\<open>Decorator\<close>.
\<close>

definition example_decorator :: node where
  "example_decorator =
     BodyNode \<lparr>loc_start = 0, loc_end = 7\<rparr> TemplateK
       [TextNode \<lparr>loc_start = 0, loc_end = 1\<rparr> ''a'',
        OtherNode \<lparr>loc_start = 1, loc_end = 7\<rparr> ''Decorator''] []"

text \<open>
  A void element with a child of a kind that the dispatch does not name, and a block whose
  \<^verbatim>\<open>program\<close> is such a node.
\<close>

definition example_void_child :: node where
  "example_void_child =
     ElementNode \<lparr>loc_start = 0, loc_end = 5\<rparr> ''img'' [] [] []
       [OtherNode \<lparr>loc_start = 5, loc_end = 5\<rparr> ''Decorator''] [] True"

definition example_void_child_doc :: doc where
  "example_void_child_doc =
     Concat [Group (Concat [Str ''<'', Str ''img'', Indent (Concat []),
                            IfBreak (Concat [softline, Str ''>'']) (Str ''>'')]),
             Str []]"

definition example_untyped_program :: node where
  "example_untyped_program =
     BlockStatement \<lparr>loc_start = 0, loc_end = 14\<rparr> \<lparr>original = ''if'', parts = [''if'']\<rparr>
       [example_path 6 ''a''] (Some (Hash \<lparr>loc_start = 7, loc_end = 7\<rparr> []))
       (OtherNode \<lparr>loc_start = 9, loc_end = 9\<rparr> ''Decorator'') None no_strip no_strip no_strip"

section \<open>Facts about the model\<close>

lemma bind_res_Inr_iff:
  "bind_res m f = Inr y \<longleftrightarrow> (\<exists>x. m = Inr x \<and> f x = Inr y)"
  by (cases m) (simp_all add: bind_res_def)

lemma bind_res_simps [simp]:
  "bind_res (Inl e) f = Inl e"
  "bind_res (Inr x) f = f x"
  by (simp_all add: bind_res_def)

text \<open>The array that \<open>print_each\<close> returns holds the results of the elements, in order.\<close>

lemma print_each_nth:
  "print_each opts p parent prop sibs i ns = Inr (ns', ds) \<Longrightarrow>
     length ns' = length ns \<and> length ds = length ns \<and>
     (\<forall>j<length ns. print opts (enter_at parent prop sibs (i + j) p) (ns ! j) = Inr (ns' ! j, ds ! j))"
proof (induction ns arbitrary: i ns' ds)
  case Nil
  then show ?case by simp
next
  case (Cons n ns)
  from Cons.prems obtain n' d ms es where
    h: "print opts (enter_at parent prop sibs i p) n = Inr (n', d)"
       "print_each opts p parent prop sibs (Suc i) ns = Inr (ms, es)"
       "ns' = n' # ms" "ds = d # es"
    by (auto simp: bind_res_Inr_iff)
  from Cons.IH[OF h(2)] have ih: "length ms = length ns" "length es = length ns"
    "\<forall>j<length ns. print opts (enter_at parent prop sibs (Suc i + j) p) (ns ! j) = Inr (ms ! j, es ! j)"
    by auto
  show ?case
  proof (intro conjI allI impI)
    fix j assume "j < length (n # ns)"
    then show "print opts (enter_at parent prop sibs (i + j) p) ((n # ns) ! j) = Inr (ns' ! j, ds ! j)"
      using h ih by (cases j) auto
  qed (use h ih in auto)
qed

lemma replaceAll_no_first:
  "pat \<noteq> [] \<Longrightarrow> hd pat \<notin> set s \<Longrightarrow> replaceAll pat rep s = s"
proof (induction s)
  case Nil
  then show ?case by simp
next
  case (Cons c cs)
  then obtain x xs where "pat = x # xs" by (cases pat) auto
  with Cons show ?case by simp
qed

lemma brace_not_whitespace: "\<not> html_whitespace (CHR ''{'')"
  by (simp add: html_whitespace_def)

lemma ws_no_brace: "isWhitespaceOnly chars \<Longrightarrow> CHR ''{'' \<notin> set chars"
  unfolding isWhitespaceOnly_def list_all_iff using brace_not_whitespace by blast


lemma TextNode_text_whitespace:
  assumes "isWhitespaceOnly chars"
  shows "TextNode_text chars = chars"
proof -
  have nb: "CHR ''{'' \<notin> set chars"
    using assms by (rule ws_no_brace)
  have a: "replaceAll ''{{'' (BACKSLASH # ''{{'') chars = chars"
    by (rule replaceAll_no_first) (use nb in simp_all)
  have b: "replaceAll ''{_{'' ''{{'' chars = chars"
    by (rule replaceAll_no_first) (use nb in simp_all)
  show ?thesis
    unfolding TextNode_text_def a b ..
qed

lemma enter_at_path [simp]:
  "isFirst (enter_at par prop sibs i p) \<longleftrightarrow> i = 0"
  "isLast (enter_at par prop sibs i p) \<longleftrightarrow> Suc i = length sibs"
  "parent_type (enter_at par prop sibs i p) = Some (node_type par)"
  "path_siblings (enter_at par prop sibs i p) = Some sibs"
  "path_index (enter_at par prop sibs i p) = i"
  by (simp_all add: isFirst_def isLast_def path_siblings_def path_index_def parent_type_def
      path_parent_def getParentNode_def enter_at_def)

lemma root_child_no_attribute:
  "getCurrentAttributeName (enter_at (BodyNode l k body bps) prop sibs i []) = None"
  by (simp add: getCurrentAttributeName_def getParentNode_def enter_at_def)

lemma print_TextNode_template_edge:
  assumes "isWhitespaceOnly chars" and "i = 0 \<or> Suc i = length sibs"
  shows "print_TextNode opts (enter_at (BodyNode l TemplateK body bps) prop sibs i []) chars = Str []"
  using assms
  by (auto simp: print_TextNode_def root_child_no_attribute TextNode_text_whitespace
      print_TextNode_strict_def print_TextNode_ignore_def Let_def)

text \<open>The definitions that evaluate the printer on a given tree.\<close>

named_theorems print_defs

lemmas [print_defs] = print_TextNode_def TextNode_text_def getCurrentAttributeName_def getParentNode_def
  enter_at_def enter_def print_TextNode_strict_def print_TextNode_ignore_def print_TextNode_class_def
  isFirst_def isLast_def
  path_siblings_def path_index_def parent_type_def path_parent_def path_grandparent_def Let_def
  isWhitespaceOnly_def
  html_whitespace_def js_whitespace_def js_blank_def js_line_end_def
  getLeadingWhitespace_def getTrailingWhitespace_def countNewLines_def
  countLeadingNewLines_def countTrailingNewLines_def leading_newlines_match_def
  trailing_newlines_match_def hasLeadingWhitespace_def hasTrailingWhitespace_def trimStart_def
  trimEnd_def js_trim_def
  generateHardlines_def getTextValueParts_def html_split_def next_type_def previous_type_def
  path_next_def path_previous_def NEWLINES_TO_PRESERVE_MAX_def
  printParams_of_def printParams_def printPathAndParams_doc_def printSubExpressionPathAndParams_doc_def
  printOpeningMustache_def printClosingMustache_def print_PathExpression_def truthy_def
  printOpeningBlockOpeningMustache_def printOpeningBlockClosingMustache_def
  printClosingBlockOpeningMustache_def printClosingBlockClosingMustache_def
  printInverseBlockOpeningMustache_def printInverseBlockClosingMustache_def printElseBlock_def
  isElseIfLike_def is_first_of_inverse_def grandparent_inverseStrip_def
  blockStatementHasOnlyWhitespaceInProgram_def blockStatementHasElseIfLike_def
  printCloseBlock_path_def printStartingTag_doc_def printChildren_doc_def printOpenBlock_doc_def
  printElseIfLikeBlock_doc_def printProgram_doc_def printInverse_doc_def printCloseBlock_doc_def
  attr_without_value_def part_chars_def attr_quote_def print_AttrNode_doc_def getPreferredQuote_def
  printBlockParams_def printStartingTagEndMarker_def printStringLiteral_def
  print_MustacheCommentStatement_def startsWith_def endsWith_def charAt_def replaceEndOfLine_def
  parts0_def doc_of_segment_def locStart_def locEnd_def toLowerCase_def toLowerCase_char_def

section \<open>The root of the document\<close>

text \<open>
  C10. For a root Template the printer returns a group whose contents are the documents of
  the children of the body, one for each child, followed by one hard line as the last
  element. A child of the body that is a text run of whitespace only, in the first or in
  the last position, gives the empty string.
\<close>

theorem template_trailing_hardline:
  assumes "print opts [] (BodyNode l TemplateK body bps) = Inr (n', d)"
  shows "\<exists>ds. d = Group (Concat (ds @ [LineDoc Hard])) \<and> length ds = length body \<and>
           (\<forall>i tl chars. i < length body \<and> body ! i = TextNode tl chars \<and> isWhitespaceOnly chars \<and>
                (i = 0 \<or> Suc i = length body) \<longrightarrow> ds ! i = Str [])"
proof -
  from assms obtain body' ds where
    e: "print_each opts [] (BodyNode l TemplateK body bps) ''body'' body 0 body = Inr (body', ds)"
    and d: "d = Group (Concat (ds @ [LineDoc Hard]))"
    by (auto simp: bind_res_Inr_iff)
  note nth = print_each_nth[OF e]
  have "ds ! i = Str []"
    if "i < length body" "body ! i = TextNode tl chars" "isWhitespaceOnly chars"
       "i = 0 \<or> Suc i = length body" for i tl chars
  proof -
    from nth that(1) have
      "print opts (enter_at (BodyNode l TemplateK body bps) ''body'' body i []) (body ! i) =
         Inr (body' ! i, ds ! i)"
      by simp
    with that(2) have
      "ds ! i = print_TextNode opts (enter_at (BodyNode l TemplateK body bps) ''body'' body i []) chars"
      by simp
    with that(3,4) show ?thesis
      by (simp add: print_TextNode_template_edge)
  qed
  with d nth show ?thesis by blast
qed

theorem template_trailing_hardline_witness:
  "print \<lparr>htmlWhitespaceSensitivity = ''css'', singleQuote = False, originalText = [NL] @ ''{{x}}'' @ [NL]\<rparr> []
     (BodyNode \<lparr>loc_start = 0, loc_end = 7\<rparr> TemplateK
        [TextNode \<lparr>loc_start = 0, loc_end = 1\<rparr> [NL],
         MustacheStatement \<lparr>loc_start = 1, loc_end = 6\<rparr>
           (PathExpression \<lparr>loc_start = 3, loc_end = 4\<rparr> \<lparr>original = ''x'', parts = [''x'']\<rparr>)
           [] (Some (Hash \<lparr>loc_start = 4, loc_end = 4\<rparr> [])) True
           \<lparr>strip_open = False, strip_close = False\<rparr>,
         TextNode \<lparr>loc_start = 6, loc_end = 7\<rparr> [NL]] []) =
   Inr (BodyNode \<lparr>loc_start = 0, loc_end = 7\<rparr> TemplateK
        [TextNode \<lparr>loc_start = 0, loc_end = 1\<rparr> [NL],
         MustacheStatement \<lparr>loc_start = 1, loc_end = 6\<rparr>
           (PathExpression \<lparr>loc_start = 3, loc_end = 4\<rparr> \<lparr>original = ''x'', parts = [''x'']\<rparr>)
           [] (Some (Hash \<lparr>loc_start = 4, loc_end = 4\<rparr> [])) True
           \<lparr>strip_open = False, strip_close = False\<rparr>,
         TextNode \<lparr>loc_start = 6, loc_end = 7\<rparr> [NL]] [],
        Group (Concat ([Str [],
                        Group (Concat [Concat [Str ''{{'', Str []], Str ''x'', Concat [Str [], Str ''}}'']]),
                        Str []] @ [LineDoc Hard])))
   \<and> (\<exists>ds. Group (Concat ([Str [],
                        Group (Concat [Concat [Str ''{{'', Str []], Str ''x'', Concat [Str [], Str ''}}'']]),
                        Str []] @ [LineDoc Hard])) = Group (Concat (ds @ [LineDoc Hard])) \<and>
            length ds = length [TextNode \<lparr>loc_start = 0, loc_end = 1\<rparr> [NL],
         MustacheStatement \<lparr>loc_start = 1, loc_end = 6\<rparr>
           (PathExpression \<lparr>loc_start = 3, loc_end = 4\<rparr> \<lparr>original = ''x'', parts = [''x'']\<rparr>)
           [] (Some (Hash \<lparr>loc_start = 4, loc_end = 4\<rparr> [])) True
           \<lparr>strip_open = False, strip_close = False\<rparr>,
         TextNode \<lparr>loc_start = 6, loc_end = 7\<rparr> [NL]])"
proof -
  have e: "print \<lparr>htmlWhitespaceSensitivity = ''css'', singleQuote = False, originalText = [NL] @ ''{{x}}'' @ [NL]\<rparr> []
     (BodyNode \<lparr>loc_start = 0, loc_end = 7\<rparr> TemplateK
        [TextNode \<lparr>loc_start = 0, loc_end = 1\<rparr> [NL],
         MustacheStatement \<lparr>loc_start = 1, loc_end = 6\<rparr>
           (PathExpression \<lparr>loc_start = 3, loc_end = 4\<rparr> \<lparr>original = ''x'', parts = [''x'']\<rparr>)
           [] (Some (Hash \<lparr>loc_start = 4, loc_end = 4\<rparr> [])) True
           \<lparr>strip_open = False, strip_close = False\<rparr>,
         TextNode \<lparr>loc_start = 6, loc_end = 7\<rparr> [NL]] []) =
   Inr (BodyNode \<lparr>loc_start = 0, loc_end = 7\<rparr> TemplateK
        [TextNode \<lparr>loc_start = 0, loc_end = 1\<rparr> [NL],
         MustacheStatement \<lparr>loc_start = 1, loc_end = 6\<rparr>
           (PathExpression \<lparr>loc_start = 3, loc_end = 4\<rparr> \<lparr>original = ''x'', parts = [''x'']\<rparr>)
           [] (Some (Hash \<lparr>loc_start = 4, loc_end = 4\<rparr> [])) True
           \<lparr>strip_open = False, strip_close = False\<rparr>,
         TextNode \<lparr>loc_start = 6, loc_end = 7\<rparr> [NL]] [],
        Group (Concat ([Str [],
                        Group (Concat [Concat [Str ''{{'', Str []], Str ''x'', Concat [Str [], Str ''}}'']]),
                        Str []] @ [LineDoc Hard])))"
    by (simp add: print_defs)
  from template_trailing_hardline[OF e] obtain ds where
    "Group (Concat ([Str [],
                        Group (Concat [Concat [Str ''{{'', Str []], Str ''x'', Concat [Str [], Str ''}}'']]),
                        Str []] @ [LineDoc Hard])) = Group (Concat (ds @ [LineDoc Hard]))"
    "length ds = length [TextNode \<lparr>loc_start = 0, loc_end = 1\<rparr> [NL],
         MustacheStatement \<lparr>loc_start = 1, loc_end = 6\<rparr>
           (PathExpression \<lparr>loc_start = 3, loc_end = 4\<rparr> \<lparr>original = ''x'', parts = [''x'']\<rparr>)
           [] (Some (Hash \<lparr>loc_start = 4, loc_end = 4\<rparr> [])) True
           \<lparr>strip_open = False, strip_close = False\<rparr>,
         TextNode \<lparr>loc_start = 6, loc_end = 7\<rparr> [NL]]"
    by blast
  with e show ?thesis by blast
qed

section \<open>Paths\<close>

text \<open>
  C9, as amended. A path whose original spelling starts with \<^verbatim>\<open>../\<close>, or has both a \<^verbatim>\<open>.\<close>
  and a \<^verbatim>\<open>/\<close>, and does not start with \<^verbatim>\<open>./\<close>, passes the checks of the visitor, which
  joins its segments with \<^verbatim>\<open>/\<close> into one; the printer prints the original spelling of a
  PathExpression as it is.
\<close>

theorem permissive_paths:
  assumes "prefix ''../'' (original path) \<or> (CHR ''.'' \<in> set (original path) \<and> CHR ''/'' \<in> set (original path))"
    and "\<not> prefix ''./'' (original path)"
  shows "PathExpression_parts rest path = Inr [join_strings ''/'' (parts path)] \<and>
         print opts p (PathExpression l path) = Inr (PathExpression l path, Str (original path))"
proof -
  from assms(1) have slash: "CHR ''/'' \<in> set (original path)"
    by (auto simp: prefix_def)
  have "take 2 (original path) \<noteq> ''./''"
  proof
    assume "take 2 (original path) = ''./''"
    then have "prefix ''./'' (original path)"
      by (metis take_is_prefix)
    with assms(2) show False by contradiction
  qed
  with slash show ?thesis
    by (simp add: PathExpression_parts_def print_PathExpression_def)
qed

theorem permissive_paths_witness:
  "(prefix ''../'' ''../a.b/c'' \<or> (CHR ''.'' \<in> set ''../a.b/c'' \<and> CHR ''/'' \<in> set ''../a.b/c'')) \<and>
   \<not> prefix ''./'' ''../a.b/c'' \<and>
   PathExpression_parts (\<lambda>x. Inl DotPath) \<lparr>original = ''../a.b/c'', parts = [''a'', ''b'', ''c'']\<rparr> = Inr [''a/b/c''] \<and>
   print \<lparr>htmlWhitespaceSensitivity = ''css'', singleQuote = False, originalText = ''{{../a.b/c}}''\<rparr> []
     (PathExpression \<lparr>loc_start = 2, loc_end = 10\<rparr> \<lparr>original = ''../a.b/c'', parts = [''a'', ''b'', ''c'']\<rparr>) =
   Inr (PathExpression \<lparr>loc_start = 2, loc_end = 10\<rparr> \<lparr>original = ''../a.b/c'', parts = [''a'', ''b'', ''c'']\<rparr>,
        Str ''../a.b/c'')"
  using permissive_paths [of "\<lparr>original = ''../a.b/c'', parts = [''a'', ''b'', ''c'']\<rparr>"
      "\<lambda>x. Inl DotPath"
      "\<lparr>htmlWhitespaceSensitivity = ''css'', singleQuote = False, originalText = ''{{../a.b/c}}''\<rparr>"
      "[]" "\<lparr>loc_start = 2, loc_end = 10\<rparr>"]
  by simp

text \<open>
  C9 as stated fails: the spelling \<^verbatim>\<open>./a.b/c\<close> has both separators, and the visitor throws
  on its prefix \<^verbatim>\<open>./\<close>, whatever the rest of the visitor does.
\<close>

theorem dot_slash_path_rejected:
  "CHR ''.'' \<in> set ''./a.b/c'' \<and> CHR ''/'' \<in> set ''./a.b/c'' \<and>
   (\<forall>rest. PathExpression_parts rest \<lparr>original = ''./a.b/c'', parts = [''a'', ''b'', ''c'']\<rparr> = Inl UsingDotSlash)"
  by (simp add: PathExpression_parts_def)

section \<open>Facts about text runs\<close>

lemma split_char_length: "length (split_char c s) = Suc (count_list s c)"
  by (induction s) (auto split: list.splits)

lemma countNewLines_count: "countNewLines s = count_list s NL"
  by (simp add: countNewLines_def split_char_length)

lemma countNewLines_zero_iff:
  "countNewLines s = 0 \<longleftrightarrow> NL \<notin> set s"
  "0 < countNewLines s \<longleftrightarrow> NL \<in> set s"
  using count_list_0_iff[of s NL] by (auto simp: countNewLines_count)

lemma generateHardlines_cap:
  "length (generateHardlines n) = min n 2" "set (generateHardlines n) \<subseteq> {hardline}"
  "3 \<le> n \<Longrightarrow> generateHardlines n = [hardline, hardline]"
  by (auto simp: generateHardlines_def NEWLINES_TO_PRESERVE_MAX_def min_def numeral_2_eq_2)

lemma drop_leading: "drop (length (getLeadingWhitespace s)) s = trimStart s"
  by (simp add: getLeadingWhitespace_def trimStart_def dropWhile_eq_drop)

lemma take_trailing: "take (length s - length (getTrailingWhitespace s)) s = trimEnd s"
proof -
  have "rev (take (length s - length (takeWhile html_whitespace (rev s))) s) =
        drop (length (takeWhile html_whitespace (rev s))) (rev s)"
    using length_takeWhile_le[of html_whitespace "rev s"] by (simp add: rev_take)
  also have "\<dots> = dropWhile html_whitespace (rev s)"
    by (simp add: dropWhile_eq_drop)
  finally show ?thesis
    by (simp add: getTrailingWhitespace_def trimEnd_def rev_swap)
qed

lemma trimEnd_id: "getTrailingWhitespace s = [] \<Longrightarrow> trimEnd s = s"
  using take_trailing[of s] by simp

lemma trailing_of_trimStart:
  assumes "\<not> isWhitespaceOnly s"
  shows "getTrailingWhitespace (trimStart s) = getTrailingWhitespace s"
proof -
  let ?a = "takeWhile html_whitespace s" and ?b = "dropWhile html_whitespace s"
  from assms have "?b \<noteq> []"
    by (simp add: isWhitespaceOnly_def list_all_iff)
  then have "\<not> html_whitespace (hd ?b)"
    by (rule hd_dropWhile)
  moreover from \<open>?b \<noteq> []\<close> have "hd ?b \<in> set (rev ?b)" by simp
  ultimately have "takeWhile html_whitespace (rev ?b @ rev ?a) = takeWhile html_whitespace (rev ?b)"
    by (metis takeWhile_append1)
  moreover have "rev s = rev ?b @ rev ?a"
    by (metis rev_append takeWhile_dropWhile_id)
  ultimately show ?thesis
    by (simp add: getTrailingWhitespace_def trimStart_def)
qed

lemma print_TextNode_strict_text:
  assumes "\<not> isWhitespaceOnly text"
  shows "print_TextNode_strict p text =
     Concat ((if getLeadingWhitespace text = [] then []
              else if NL \<in> set (getLeadingWhitespace text)
                   then generateHardlines (countNewLines (getLeadingWhitespace text)) else [line]) @
             [Fill (getTextValueParts (trimEnd (trimStart text)))] @
             (if getTrailingWhitespace text = [] \<or> (isLast p \<and> parent_type p = Some ''Template'') then []
              else (if isLast p then map Dedent else id)
                     (if NL \<in> set (getTrailingWhitespace text)
                      then generateHardlines (countNewLines (getTrailingWhitespace text)) else [line])))"
proof -
  have t: "getTrailingWhitespace (trimStart text) = getTrailingWhitespace text"
    using assms by (rule trailing_of_trimStart)
  have e: "getLeadingWhitespace text = [] \<Longrightarrow> trimStart text = text"
    by (metis drop_leading drop0 list.size(3))
  have f: "getTrailingWhitespace text = [] \<Longrightarrow> trimEnd (trimStart text) = trimStart text"
    using take_trailing[of "trimStart text"] t by simp
  have g: "take (length (trimStart text) - length (getTrailingWhitespace text)) (trimStart text) =
           trimEnd (trimStart text)"
    using take_trailing[of "trimStart text"] t by simp
  show ?thesis
    using assms
    by (auto simp: print_TextNode_strict_def Let_def drop_leading t e f g countNewLines_zero_iff
        take_trailing trimEnd_id)
qed

lemma print_TextNode_strict_whitespace:
  assumes "isWhitespaceOnly text"
  shows "print_TextNode_strict p text =
     (if (isFirst p \<or> isLast p) \<and> parent_type p = Some ''Template'' then Str []
      else Concat ((if isLast p then map Dedent else id)
                     (if NL \<in> set text then generateHardlines (countNewLines text) else [line])))"
  using assms by (auto simp: print_TextNode_strict_def Let_def countNewLines_zero_iff)


lemma getTextValueParts_empty: "getTextValueParts [] = [Str []]"
  by (simp add: getTextValueParts_def html_split_def)

lemma generateHardlines_min: "generateHardlines (min n NEWLINES_TO_PRESERVE_MAX) = generateHardlines n"
  by (simp add: generateHardlines_def)

lemma print_TextNode_ignore_whitespace:
  assumes "isWhitespaceOnly text" "NL \<in> set text" "\<not> isFirst p" "\<not> isLast p"
  shows "print_TextNode_ignore p text = Concat (generateHardlines (countNewLines text) @ [Fill [Str []]])"
proof -
  from assms(2) have ne: "text \<noteq> []" by auto
  from assms(1) have ts: "trimStart text = []"
    by (simp add: trimStart_def isWhitespaceOnly_def list_all_iff)
  from assms(1) ne have lw: "hasLeadingWhitespace text"
    by (cases "text") (simp_all add: hasLeadingWhitespace_def isWhitespaceOnly_def)
  have h: "\<not> hasTrailingWhitespace []"
    by (simp add: hasTrailingWhitespace_def)
  from assms(2) have pos: "countNewLines text \<noteq> 0" "0 < countNewLines text"
    by (simp_all add: countNewLines_zero_iff)
  then have m: "(min (countNewLines text) NEWLINES_TO_PRESERVE_MAX = 0) = False"
    by (simp add: NEWLINES_TO_PRESERVE_MAX_def)
  have g0: "generateHardlines 0 = []"
    by (simp add: generateHardlines_def)
  show ?thesis
    using assms pos
    by (simp add: print_TextNode_ignore_def Let_def ts lw h getTextValueParts_empty
        generateHardlines_min g0 m)
qed

lemma print_TextNode_ignore_text:
  assumes "\<not> isWhitespaceOnly text"
  shows "\<exists>parts.
     print_TextNode_ignore p text =
       Concat (generateHardlines
                 (if isFirst p then 0
                  else if previous_type p = Some ''BlockStatement'' \<or> previous_type p = Some ''ElementNode''
                  then max (countLeadingNewLines text) 1 else countLeadingNewLines text) @
               [Fill parts] @
               generateHardlines
                 (if isLast p then 0
                  else if next_type p = Some ''BlockStatement'' \<or> next_type p = Some ''ElementNode''
                  then max (countTrailingNewLines text) 1 else countTrailingNewLines text))"
  using assms by (simp add: print_TextNode_ignore_def Let_def)

lemma next_not_last: "next_type p = Some t \<Longrightarrow> \<not> isLast p"
  by (auto simp: next_type_def path_next_def isLast_def split: option.splits if_splits)

lemma previous_not_first: "previous_type p = Some t \<Longrightarrow> \<not> isFirst p"
  by (auto simp: previous_type_def path_previous_def isFirst_def split: option.splits if_splits)

lemma print_TextNode_no_attribute:
  assumes "getCurrentAttributeName p = None"
  shows "print_TextNode opts p chars =
     (if htmlWhitespaceSensitivity opts \<noteq> ''ignore'' then print_TextNode_strict p (TextNode_text chars)
      else print_TextNode_ignore p (TextNode_text chars))"
  using assms by (simp add: print_TextNode_def)

lemmas example_defs = example_options_def example_path_def example_mustache_def
  example_text_mustache_def

lemma generateHardlines_length_le: "length (generateHardlines n) \<le> 2"
  by (simp add: generateHardlines_cap(1))

section \<open>Whitespace at the boundary with an interpolation\<close>

text \<open>
  C3, as amended. When \<^verbatim>\<open>htmlWhitespaceSensitivity\<close> is not \<^verbatim>\<open>"ignore"\<close>, a text run outside
  an attribute whose whitespace next to a MustacheStatement has no line feed prints that
  whitespace as one breakable \<open>line\<close>, not as a space character: after the words of the run
  when the MustacheStatement follows, before them when it precedes, and alone when the run is
  whitespace only (inside \<open>dedent\<close> when the run is the last child, and nothing at all at the
  two ends of the Template).
\<close>

theorem strict_mustache_boundary:
  assumes "htmlWhitespaceSensitivity opts \<noteq> ''ignore''"
    and "getCurrentAttributeName p = None"
    and "text = TextNode_text chars"
  shows
    "(\<not> isWhitespaceOnly text \<and> next_type p = Some ''MustacheStatement'' \<and>
      getTrailingWhitespace text \<noteq> [] \<and> NL \<notin> set (getTrailingWhitespace text) \<longrightarrow>
        (\<exists>front. print_TextNode opts p chars =
           Concat (front @ [Fill (getTextValueParts (trimEnd (trimStart text))), line]))) \<and>
     (\<not> isWhitespaceOnly text \<and> previous_type p = Some ''MustacheStatement'' \<and>
      getLeadingWhitespace text \<noteq> [] \<and> NL \<notin> set (getLeadingWhitespace text) \<longrightarrow>
        (\<exists>rest. print_TextNode opts p chars =
           Concat (line # Fill (getTextValueParts (trimEnd (trimStart text))) # rest))) \<and>
     (isWhitespaceOnly text \<and> NL \<notin> set text \<and> next_type p = Some ''MustacheStatement'' \<and>
      \<not> (isFirst p \<and> parent_type p = Some ''Template'') \<longrightarrow>
        print_TextNode opts p chars = Concat [line]) \<and>
     (isWhitespaceOnly text \<and> NL \<notin> set text \<and> previous_type p = Some ''MustacheStatement'' \<and>
      \<not> (isLast p \<and> parent_type p = Some ''Template'') \<longrightarrow>
        print_TextNode opts p chars = Concat ((if isLast p then map Dedent else id) [line]))"
proof -
  have s: "print_TextNode opts p chars = print_TextNode_strict p text"
    using assms by (simp add: print_TextNode_no_attribute)
  show ?thesis
    unfolding s
    by (auto simp: print_TextNode_strict_text print_TextNode_strict_whitespace
        dest: next_not_last previous_not_first)
qed

theorem strict_mustache_boundary_witness:
  "getCurrentAttributeName
     (enter_at example_text_mustache ''body'' [TextNode \<lparr>loc_start = 0, loc_end = 4\<rparr> ''foo '', example_mustache 4 ''x''] 0 []) = None \<and>
   \<not> isWhitespaceOnly ''foo '' \<and>
   next_type
     (enter_at example_text_mustache ''body'' [TextNode \<lparr>loc_start = 0, loc_end = 4\<rparr> ''foo '', example_mustache 4 ''x''] 0 []) = Some ''MustacheStatement'' \<and>
   getTrailingWhitespace ''foo '' = '' '' \<and>
   (\<exists>front. print_TextNode (example_options ''css'' ''foo {{x}}'')
     (enter_at example_text_mustache ''body'' [TextNode \<lparr>loc_start = 0, loc_end = 4\<rparr> ''foo '', example_mustache 4 ''x''] 0 []) ''foo '' =
     Concat (front @ [Fill (getTextValueParts (trimEnd (trimStart ''foo ''))), line]))"
proof -
  let ?p = "enter_at example_text_mustache ''body'' [TextNode \<lparr>loc_start = 0, loc_end = 4\<rparr> ''foo '', example_mustache 4 ''x''] 0 []"
  let ?opts = "example_options ''css'' ''foo {{x}}''"
  have h1: "htmlWhitespaceSensitivity ?opts \<noteq> ''ignore''"
    by (simp add: example_defs)
  have h2: "getCurrentAttributeName ?p = None"
    by (simp add: getCurrentAttributeName_def getParentNode_def enter_at_def example_defs)
  have h3: "''foo '' = TextNode_text ''foo ''"
    by (simp add: TextNode_text_def)
  have a: "\<not> isWhitespaceOnly ''foo ''"
    by (simp add: isWhitespaceOnly_def html_whitespace_def)
  have b: "next_type ?p = Some ''MustacheStatement''"
    by (simp add: next_type_def path_next_def example_defs)
  have c: "getTrailingWhitespace ''foo '' = '' ''"
    by (simp add: getTrailingWhitespace_def html_whitespace_def)
  from strict_mustache_boundary[OF h1 h2 h3] a b c
  have "\<exists>front. print_TextNode ?opts ?p ''foo '' =
          Concat (front @ [Fill (getTextValueParts (trimEnd (trimStart ''foo ''))), line])"
    by simp
  with h2 a b c show ?thesis by blast
qed

text \<open>
  C3 as stated fails: for the template \<^verbatim>\<open>foo {{x}}\<close>, printed with the sensitivity
  \<^verbatim>\<open>"css"\<close>, the document of the text run is the fill of its word followed by the
  breakable \<open>line\<close>; no document of the result is the string of one space.
\<close>

theorem strict_mustache_boundary_counterexample:
  "print (example_options ''css'' ''foo {{x}}'') [] example_text_mustache =
   Inr (example_text_mustache,
        Group (Concat [Concat [Fill [Str ''foo''], line],
                       Group (Concat [Concat [Str ''{{'', Str []], Str ''x'', Concat [Str [], Str ''}}'']]),
                       LineDoc Hard]))"
  by (simp add: print_defs example_defs)

section \<open>The cap on forced line breaks\<close>

lemma html_js_whitespace: "html_whitespace c \<Longrightarrow> js_whitespace c"
  by (auto simp: html_whitespace_def js_whitespace_def)

lemma blank_not_NL: "js_blank c \<Longrightarrow> c \<noteq> NL"
  by (auto simp: js_blank_def js_line_end_def)

lemma count_dropWhile_blank: "count_list (dropWhile js_blank s) NL = count_list s NL"
  by (induction s) (auto dest: blank_not_NL)

lemma count_list_rev: "count_list (rev s) x = count_list s x"
  by (induction s) auto

lemma leading_of_run:
  assumes "text = ws @ c # rest" and "list_all html_whitespace ws" and "\<not> js_whitespace c"
  shows "getLeadingWhitespace text = ws"
    and "\<not> isWhitespaceOnly text"
    and "countLeadingNewLines text = count_list ws NL"
proof -
  from assms(3) have nh: "\<not> html_whitespace c"
    using html_js_whitespace by blast
  from assms(2) have h: "\<forall>x\<in>set ws. html_whitespace x" and j: "\<forall>x\<in>set ws. js_whitespace x"
    using html_js_whitespace by (auto simp: list_all_iff)
  show "getLeadingWhitespace text = ws"
    using h nh by (simp add: getLeadingWhitespace_def assms(1) takeWhile_append2)
  show "\<not> isWhitespaceOnly text"
    using nh by (simp add: isWhitespaceOnly_def assms(1))
  have "takeWhile js_whitespace text = ws"
    using j assms(3) by (simp add: assms(1) takeWhile_append2)
  then show "countLeadingNewLines text = count_list ws NL"
    by (simp add: countLeadingNewLines_def leading_newlines_match_def countNewLines_count
        count_list_rev count_dropWhile_blank)
qed

lemma trailing_of_run:
  assumes "text = pre @ c # ws" and "list_all html_whitespace ws" and "\<not> js_whitespace c"
  shows "getTrailingWhitespace text = ws"
    and "\<not> isWhitespaceOnly text"
    and "countTrailingNewLines text = count_list ws NL"
proof -
  from assms(3) have nh: "\<not> html_whitespace c"
    using html_js_whitespace by blast
  have r: "rev text = rev ws @ c # rev pre"
    by (simp add: assms(1))
  have tw: "takeWhile P (rev ws @ c # rev pre) = rev ws" if "\<And>x. x \<in> set ws \<Longrightarrow> P x" "\<not> P c" for P
  proof -
    have "takeWhile P (rev ws @ c # rev pre) = rev ws @ takeWhile P (c # rev pre)"
      by (rule takeWhile_append2) (use that(1) in simp)
    with that(2) show ?thesis by simp
  qed
  have "takeWhile html_whitespace (rev text) = rev ws"
    unfolding r using assms(2) nh by (intro tw) (auto simp: list_all_iff)
  then show "getTrailingWhitespace text = ws"
    by (simp add: getTrailingWhitespace_def)
  show "\<not> isWhitespaceOnly text"
    using nh by (simp add: isWhitespaceOnly_def assms(1))
  have "takeWhile js_whitespace (rev text) = rev ws"
    unfolding r using assms(2,3) html_js_whitespace by (intro tw) (auto simp: list_all_iff)
  then show "countTrailingNewLines text = count_list ws NL"
    by (simp add: countTrailingNewLines_def trailing_newlines_match_def countNewLines_count
        count_dropWhile_blank)
qed

text \<open>
  C4. The printer counts line feeds, not blank lines, and caps the hard lines it emits for
  them at \<open>NEWLINES_TO_PRESERVE_MAX\<close>. \<open>generateHardlines\<close> never returns more than two hard
  lines and returns exactly two for three or more. For a text run outside an attribute, at
  every boundary that the printer keeps, three or more line feeds in the whitespace of the
  run give exactly two hard lines, never more and never none: in a run of whitespace only, in
  the whitespace \<open>ws\<close> before the first character \<open>c\<close> that is not whitespace, and in the
  whitespace \<open>ws\<close> after the last such character, when the sensitivity is not \<^verbatim>\<open>"ignore"\<close> (but
  for the two ends of the Template, which print nothing) and when it is (but for the first and
  the last child, whose outer line breaks are dropped). Two hard lines are one blank line in
  the text: three blank lines in the source leave one, not two.
\<close>

theorem blank_line_cap:
  assumes "getCurrentAttributeName p = None"
    and "text = TextNode_text chars"
    and "strict \<longleftrightarrow> htmlWhitespaceSensitivity opts \<noteq> ''ignore''"
  shows
    "length (generateHardlines n) \<le> NEWLINES_TO_PRESERVE_MAX \<and>
     set (generateHardlines n) \<subseteq> {hardline} \<and>
     (3 \<le> n \<longrightarrow> generateHardlines n = [hardline, hardline]) \<and>
     (strict \<and> list_all html_whitespace text \<and> 3 \<le> count_list text NL \<and>
      \<not> ((isFirst p \<or> isLast p) \<and> parent_type p = Some ''Template'') \<longrightarrow>
        print_TextNode opts p chars = Concat ((if isLast p then map Dedent else id) [hardline, hardline])) \<and>
     (strict \<and> text = ws @ c # rest \<and> list_all html_whitespace ws \<and> \<not> js_whitespace c \<and>
      3 \<le> count_list ws NL \<longrightarrow>
        (\<exists>back. print_TextNode opts p chars =
                  Concat (hardline # hardline # Fill (getTextValueParts (trimEnd (trimStart text))) # back) \<and>
                length back \<le> 2)) \<and>
     (strict \<and> text = rest @ c # ws \<and> list_all html_whitespace ws \<and> \<not> js_whitespace c \<and>
      3 \<le> count_list ws NL \<and> \<not> (isLast p \<and> parent_type p = Some ''Template'') \<longrightarrow>
        (\<exists>front. print_TextNode opts p chars =
                   Concat (front @ Fill (getTextValueParts (trimEnd (trimStart text))) #
                           (if isLast p then map Dedent else id) [hardline, hardline]) \<and>
                 length front \<le> 2)) \<and>
     (\<not> strict \<and> list_all html_whitespace text \<and> 3 \<le> count_list text NL \<and> \<not> isFirst p \<and> \<not> isLast p \<longrightarrow>
        print_TextNode opts p chars = Concat [hardline, hardline, Fill [Str []]]) \<and>
     (\<not> strict \<and> text = ws @ c # rest \<and> list_all html_whitespace ws \<and> \<not> js_whitespace c \<and>
      3 \<le> count_list ws NL \<and> \<not> isFirst p \<longrightarrow>
        (\<exists>parts back. print_TextNode opts p chars = Concat (hardline # hardline # Fill parts # back) \<and>
                      length back \<le> 2 \<and> set back \<subseteq> {hardline})) \<and>
     (\<not> strict \<and> text = rest @ c # ws \<and> list_all html_whitespace ws \<and> \<not> js_whitespace c \<and>
      3 \<le> count_list ws NL \<and> \<not> isLast p \<longrightarrow>
        (\<exists>front parts. print_TextNode opts p chars = Concat (front @ [Fill parts, hardline, hardline]) \<and>
                       length front \<le> 2 \<and> set front \<subseteq> {hardline}))"
proof -
  have nl: "NL \<in> set s" if "3 \<le> count_list s NL" for s
    using that count_list_0_iff[of s NL] by auto
  have ne: "s \<noteq> []" if "3 \<le> count_list s NL" for s
    using nl[OF that] by auto
  have cap: "length (generateHardlines n) \<le> NEWLINES_TO_PRESERVE_MAX"
    by (simp add: generateHardlines_def)
  have two: "generateHardlines k = [hardline, hardline]" if "3 \<le> k" for k
    using that by (rule generateHardlines_cap(3))
  have c4: "print_TextNode opts p chars = Concat ((if isLast p then map Dedent else id) [hardline, hardline])"
    if "strict" "list_all html_whitespace text" "3 \<le> count_list text NL"
       "\<not> ((isFirst p \<or> isLast p) \<and> parent_type p = Some ''Template'')"
  proof -
    have w: "isWhitespaceOnly text"
      using that(2) by (simp add: isWhitespaceOnly_def)
    have k: "3 \<le> countNewLines text"
      using that(3) by (simp add: countNewLines_count)
    show ?thesis
      using that(1,4) assms nl[OF that(3)] two[OF k] w
      by (simp add: print_TextNode_no_attribute print_TextNode_strict_whitespace)
  qed
  have c5: "\<exists>back. print_TextNode opts p chars =
                  Concat (hardline # hardline # Fill (getTextValueParts (trimEnd (trimStart text))) # back) \<and>
                length back \<le> 2"
    if "strict" "text = ws @ c # rest" "list_all html_whitespace ws" "\<not> js_whitespace c"
       "3 \<le> count_list ws NL"
  proof -
    note r = leading_of_run[OF that(2,3,4)]
    have k: "3 \<le> countNewLines (getLeadingWhitespace text)"
      using that(5) by (simp add: r(1) countNewLines_count)
    show ?thesis
      using that(1) assms nl[OF that(5)] ne[OF that(5)] two[OF k] r(1,2)
      by (auto simp: print_TextNode_no_attribute print_TextNode_strict_text generateHardlines_cap(1))
  qed
  have c6: "\<exists>front. print_TextNode opts p chars =
                   Concat (front @ Fill (getTextValueParts (trimEnd (trimStart text))) #
                           (if isLast p then map Dedent else id) [hardline, hardline]) \<and>
                 length front \<le> 2"
    if "strict" "text = rest @ c # ws" "list_all html_whitespace ws" "\<not> js_whitespace c"
       "3 \<le> count_list ws NL" "\<not> (isLast p \<and> parent_type p = Some ''Template'')"
  proof -
    note r = trailing_of_run[OF that(2,3,4)]
    have k: "3 \<le> countNewLines (getTrailingWhitespace text)"
      using that(5) by (simp add: r(1) countNewLines_count)
    show ?thesis
      using that(1,6) assms nl[OF that(5)] ne[OF that(5)] two[OF k] r(1,2)
      by (auto simp: print_TextNode_no_attribute print_TextNode_strict_text generateHardlines_cap(1))
  qed
  have c7: "print_TextNode opts p chars = Concat [hardline, hardline, Fill [Str []]]"
    if "\<not> strict" "list_all html_whitespace text" "3 \<le> count_list text NL" "\<not> isFirst p" "\<not> isLast p"
  proof -
    have w: "isWhitespaceOnly text"
      using that(2) by (simp add: isWhitespaceOnly_def)
    have k: "3 \<le> countNewLines text"
      using that(3) by (simp add: countNewLines_count)
    show ?thesis
      using that(1,4,5) assms nl[OF that(3)] two[OF k] w
      by (simp add: print_TextNode_no_attribute print_TextNode_ignore_whitespace)
  qed
  have c8: "\<exists>parts back. print_TextNode opts p chars = Concat (hardline # hardline # Fill parts # back) \<and>
                      length back \<le> 2 \<and> set back \<subseteq> {hardline}"
    if "\<not> strict" "text = ws @ c # rest" "list_all html_whitespace ws" "\<not> js_whitespace c"
       "3 \<le> count_list ws NL" "\<not> isFirst p"
  proof -
    note r = leading_of_run[OF that(2,3,4)]
    have k: "3 \<le> countLeadingNewLines text"
      using that(5) by (simp add: r(3))
    from print_TextNode_ignore_text[OF r(2), of p] obtain prts where
      e: "print_TextNode_ignore p text =
            Concat (generateHardlines
                 (if isFirst p then 0
                  else if previous_type p = Some ''BlockStatement'' \<or> previous_type p = Some ''ElementNode''
                  then max (countLeadingNewLines text) 1 else countLeadingNewLines text) @
               [Fill prts] @
               generateHardlines
                 (if isLast p then 0
                  else if next_type p = Some ''BlockStatement'' \<or> next_type p = Some ''ElementNode''
                  then max (countTrailingNewLines text) 1 else countTrailingNewLines text))"
      by blast
    have "generateHardlines
                 (if isFirst p then 0
                  else if previous_type p = Some ''BlockStatement'' \<or> previous_type p = Some ''ElementNode''
                  then max (countLeadingNewLines text) 1 else countLeadingNewLines text) = [hardline, hardline]"
      using k that(6) by (intro two) auto
    with e that(1) assms show ?thesis
      using generateHardlines_cap(1,2)
      by (auto simp: print_TextNode_no_attribute)
  qed
  have c9: "\<exists>front parts. print_TextNode opts p chars = Concat (front @ [Fill parts, hardline, hardline]) \<and>
                       length front \<le> 2 \<and> set front \<subseteq> {hardline}"
    if "\<not> strict" "text = rest @ c # ws" "list_all html_whitespace ws" "\<not> js_whitespace c"
       "3 \<le> count_list ws NL" "\<not> isLast p"
  proof -
    note r = trailing_of_run[OF that(2,3,4)]
    have k: "3 \<le> countTrailingNewLines text"
      using that(5) by (simp add: r(3))
    from print_TextNode_ignore_text[OF r(2), of p] obtain prts where
      e: "print_TextNode_ignore p text =
            Concat (generateHardlines
                 (if isFirst p then 0
                  else if previous_type p = Some ''BlockStatement'' \<or> previous_type p = Some ''ElementNode''
                  then max (countLeadingNewLines text) 1 else countLeadingNewLines text) @
               [Fill prts] @
               generateHardlines
                 (if isLast p then 0
                  else if next_type p = Some ''BlockStatement'' \<or> next_type p = Some ''ElementNode''
                  then max (countTrailingNewLines text) 1 else countTrailingNewLines text))"
      by blast
    have "generateHardlines
                 (if isLast p then 0
                  else if next_type p = Some ''BlockStatement'' \<or> next_type p = Some ''ElementNode''
                  then max (countTrailingNewLines text) 1 else countTrailingNewLines text) = [hardline, hardline]"
      using k that(6) by (intro two) auto
    with e that(1) assms show ?thesis
      using generateHardlines_cap(1,2)
      by (auto simp: print_TextNode_no_attribute)
  qed
  have g4: "strict \<and> list_all html_whitespace text \<and> 3 \<le> count_list text NL \<and>
      \<not> ((isFirst p \<or> isLast p) \<and> parent_type p = Some ''Template'') \<longrightarrow>
        print_TextNode opts p chars = Concat ((if isLast p then map Dedent else id) [hardline, hardline])"
    using c4 by blast
  have g5: "strict \<and> text = ws @ c # rest \<and> list_all html_whitespace ws \<and> \<not> js_whitespace c \<and>
      3 \<le> count_list ws NL \<longrightarrow>
        (\<exists>back. print_TextNode opts p chars =
                  Concat (hardline # hardline # Fill (getTextValueParts (trimEnd (trimStart text))) # back) \<and>
                length back \<le> 2)"
    using c5 by blast
  have g6: "strict \<and> text = rest @ c # ws \<and> list_all html_whitespace ws \<and> \<not> js_whitespace c \<and>
      3 \<le> count_list ws NL \<and> \<not> (isLast p \<and> parent_type p = Some ''Template'') \<longrightarrow>
        (\<exists>front. print_TextNode opts p chars =
                   Concat (front @ Fill (getTextValueParts (trimEnd (trimStart text))) #
                           (if isLast p then map Dedent else id) [hardline, hardline]) \<and>
                 length front \<le> 2)"
    using c6 by blast
  have g7: "\<not> strict \<and> list_all html_whitespace text \<and> 3 \<le> count_list text NL \<and> \<not> isFirst p \<and> \<not> isLast p \<longrightarrow>
        print_TextNode opts p chars = Concat [hardline, hardline, Fill [Str []]]"
    using c7 by blast
  have g8: "\<not> strict \<and> text = ws @ c # rest \<and> list_all html_whitespace ws \<and> \<not> js_whitespace c \<and>
      3 \<le> count_list ws NL \<and> \<not> isFirst p \<longrightarrow>
        (\<exists>parts back. print_TextNode opts p chars = Concat (hardline # hardline # Fill parts # back) \<and>
                      length back \<le> 2 \<and> set back \<subseteq> {hardline})"
    using c8 by blast
  have g9: "\<not> strict \<and> text = rest @ c # ws \<and> list_all html_whitespace ws \<and> \<not> js_whitespace c \<and>
      3 \<le> count_list ws NL \<and> \<not> isLast p \<longrightarrow>
        (\<exists>front parts. print_TextNode opts p chars = Concat (front @ [Fill parts, hardline, hardline]) \<and>
                       length front \<le> 2 \<and> set front \<subseteq> {hardline})"
    using c9 by blast
  have g3: "3 \<le> n \<longrightarrow> generateHardlines n = [hardline, hardline]"
    using two by blast
  show ?thesis
    by (rule conjI[OF cap conjI[OF generateHardlines_cap(2) conjI[OF g3 conjI[OF g4 conjI[OF g5
          conjI[OF g6 conjI[OF g7 conjI[OF g8 g9]]]]]]]])
qed

theorem blank_line_cap_witness:
  "getCurrentAttributeName example_blank_lines_path = None \<and>
   \<not> isFirst example_blank_lines_path \<and> \<not> isLast example_blank_lines_path \<and>
   count_list [NL, NL, NL, NL] NL = 4 \<and>
   print_TextNode (example_options ''css'' []) example_blank_lines_path [NL, NL, NL, NL] =
     Concat [hardline, hardline] \<and>
   print_TextNode (example_options ''ignore'' []) example_blank_lines_path [NL, NL, NL, NL] =
     Concat [hardline, hardline, Fill [Str []]] \<and>
   print_TextNode (example_options ''css'' []) example_blank_lines_path
     ([NL, NL, NL, NL] @ ''a'' @ [NL, NL, NL, NL]) =
     Concat [hardline, hardline, Fill [Str ''a''], hardline, hardline] \<and>
   print_TextNode (example_options ''ignore'' []) example_blank_lines_path
     ([NL, NL, NL, NL] @ ''a'' @ [NL, NL, NL, NL]) =
     Concat [hardline, hardline, Fill [Str ''a''], hardline, hardline] \<and>
   generateHardlines 4 = [hardline, hardline]"
proof -
  let ?p = "example_blank_lines_path"
  let ?t = "[NL, NL, NL, NL]"
  let ?u = "[NL, NL, NL, NL] @ ''a'' @ [NL, NL, NL, NL]"
  have h1: "getCurrentAttributeName ?p = None"
    by (simp add: getCurrentAttributeName_def getParentNode_def enter_at_def
        example_blank_lines_path_def example_blank_lines_def)
  have h2: "?t = TextNode_text ?t" "?u = TextNode_text ?u"
    by (simp_all add: TextNode_text_def)
  have ws: "list_all html_whitespace ?t"
    by (simp add: html_whitespace_def)
  have n: "3 \<le> count_list ?t NL" "count_list ?t NL = 4"
    by simp_all
  have c: "\<not> js_whitespace CHR ''a''"
    by (simp add: js_whitespace_def)
  have u: "?u = ?t @ CHR ''a'' # ?t"
    by simp
  have f: "\<not> isFirst ?p" "\<not> isLast ?p"
    by (simp_all add: example_blank_lines_path_def)
  have s1: "True \<longleftrightarrow> htmlWhitespaceSensitivity (example_options ''css'' []) \<noteq> ''ignore''"
    by (simp add: example_options_def)
  have s2: "False \<longleftrightarrow> htmlWhitespaceSensitivity (example_options ''ignore'' []) \<noteq> ''ignore''"
    by (simp add: example_options_def)
  have fill: "getTextValueParts (trimEnd (trimStart ?u)) = [Str ''a'']"
    by (simp add: getTextValueParts_def trimEnd_def trimStart_def html_split_def html_whitespace_def)
  from blank_line_cap[OF h1 h2(1) s1, of 4] ws n f
  have a: "print_TextNode (example_options ''css'' []) ?p ?t = Concat [hardline, hardline]"
    and g: "generateHardlines 4 = [hardline, hardline]"
    by simp_all
  from blank_line_cap[OF h1 h2(1) s2, of 4] ws n f
  have b: "print_TextNode (example_options ''ignore'' []) ?p ?t = Concat [hardline, hardline, Fill [Str []]]"
    by simp
  note css = blank_line_cap[OF h1 h2(2) s1, of 4 ?t "CHR ''a''" ?t]
  note ign = blank_line_cap[OF h1 h2(2) s2, of 4 ?t "CHR ''a''" ?t]
  from css[THEN conjunct2, THEN conjunct2, THEN conjunct2, THEN conjunct2, THEN conjunct1] ws n(1) c u
  obtain bk where
    l: "print_TextNode (example_options ''css'' []) ?p ?u =
       Concat (hardline # hardline # Fill (getTextValueParts (trimEnd (trimStart ?u))) # bk)"
    by blast
  from css[THEN conjunct2, THEN conjunct2, THEN conjunct2, THEN conjunct2, THEN conjunct2, THEN conjunct1]
    ws n(1) c u f
  have "\<exists>front. print_TextNode (example_options ''css'' []) ?p ?u =
          Concat (front @ Fill (getTextValueParts (trimEnd (trimStart ?u))) #
                  (if isLast ?p then map Dedent else id) [hardline, hardline]) \<and>
          length front \<le> 2"
    by blast
  with f(2) obtain fr where
    t: "print_TextNode (example_options ''css'' []) ?p ?u =
       Concat (fr @ Fill (getTextValueParts (trimEnd (trimStart ?u))) # [hardline, hardline])"
    and fl: "length fr \<le> 2"
    by auto
  from l t have "hardline # hardline # Fill [Str ''a''] # bk = fr @ [Fill [Str ''a''], hardline, hardline]"
    unfolding fill by simp
  with fl have "fr = [hardline, hardline]"
    by (cases fr; cases "tl fr"; cases "tl (tl fr)") auto
  with t have d: "print_TextNode (example_options ''css'' []) ?p ?u =
       Concat [hardline, hardline, Fill [Str ''a''], hardline, hardline]"
    unfolding fill by simp
  from ign[THEN conjunct2, THEN conjunct2, THEN conjunct2, THEN conjunct2, THEN conjunct2, THEN conjunct2,
      THEN conjunct2, THEN conjunct1] ws n(1) c u f
  obtain prts bk2 where
    "print_TextNode (example_options ''ignore'' []) ?p ?u = Concat (hardline # hardline # Fill prts # bk2)"
    by blast
  moreover have "print_TextNode (example_options ''ignore'' []) ?p ?u =
       Concat [hardline, hardline, Fill [Str ''a''], hardline, hardline]"
    using h1
    by (simp add: print_TextNode_no_attribute example_options_def TextNode_text_def
        print_TextNode_ignore_def Let_def isWhitespaceOnly_def html_whitespace_def
        countNewLines_count countLeadingNewLines_def countTrailingNewLines_def
        leading_newlines_match_def trailing_newlines_match_def js_whitespace_def js_blank_def
        js_line_end_def example_blank_lines_path_def next_type_def previous_type_def
        path_next_def path_previous_def example_mustache_def generateHardlines_def
        NEWLINES_TO_PRESERVE_MAX_def hasLeadingWhitespace_def hasTrailingWhitespace_def
        trimStart_def trimEnd_def getTextValueParts_def html_split_def numeral_2_eq_2)
  ultimately have e: "print_TextNode (example_options ''ignore'' []) ?p ?u =
       Concat [hardline, hardline, Fill [Str ''a''], hardline, hardline]"
    by simp
  from h1 f n(2) a b d e g show ?thesis by blast
qed

theorem three_blank_lines_leave_one:
  "blank_lines example_blank_lines_source = 3 \<and>
   print (example_options ''css'' example_blank_lines_source) [] example_blank_lines =
     Inr (example_blank_lines, example_blank_lines_doc) \<and>
   flat_text example_blank_lines_doc = Some (''{{x}}'' @ [NL, NL] @ ''{{y}}'' @ [NL]) \<and>
   blank_lines (''{{x}}'' @ [NL, NL] @ ''{{y}}'' @ [NL]) = 1"
  by (simp add: blank_lines_def example_blank_lines_source_def example_blank_lines_doc_def
      example_blank_lines_def print_defs example_defs js_blank_def js_whitespace_def js_line_end_def)

section \<open>The quote of an attribute value\<close>




section \<open>Chains of else-if\<close>









section \<open>The starting tag of an element\<close>

lemma print_ElementNode_tag:
  assumes "print opts p (ElementNode l tag attrs mods cmts children bps sc) = Inr (n', d)"
  obtains attrs' ads mods' mds cmts' cds rest where
    "print_each opts p (ElementNode l tag attrs mods cmts children bps sc) ''attributes'' attrs 0 attrs =
       Inr (attrs', ads)"
    "print_each opts p (ElementNode l tag attrs mods cmts children bps sc) ''modifiers'' mods 0 mods =
       Inr (mods', mds)"
    "print_each opts p (ElementNode l tag attrs mods cmts children bps sc) ''comments'' cmts 0 cmts =
       Inr (cmts', cds)"
    "d = Concat (Group (Concat (printStartingTag_doc tag (zip attrs ads @ zip mods mds @ zip cmts cds) bps))
                 # rest)"
  using assms
  by (auto simp: bind_res_Inr_iff Let_def split: if_splits)

lemma print_each_zip:
  assumes "print_each opts p parent prop sibs 0 ns = Inr (ns', ds)"
  shows "map fst (zip ns ds) = ns"
    and "\<forall>(n, e) \<in> set (zip ns ds). \<exists>i m. print opts (enter_at parent prop sibs i p) n = Inr (m, e)"
proof -
  note nth = print_each_nth[OF assms]
  then show "map fst (zip ns ds) = ns" by simp
  show "\<forall>(n, e) \<in> set (zip ns ds). \<exists>i m. print opts (enter_at parent prop sibs i p) n = Inr (m, e)"
  proof (clarify)
    fix n e assume "(n, e) \<in> set (zip ns ds)"
    then obtain j where "j < length ns" "n = ns ! j" "e = ds ! j"
      by (auto simp: set_zip)
    with nth show "\<exists>i m. print opts (enter_at parent prop sibs i p) n = Inr (m, e)"
      by auto
  qed
qed

lemma example_element_print:
  "print (example_options ''css'' []) [] example_element = Inr (example_element, example_element_doc)"
  by (simp add: print_defs example_defs example_element_def example_element_doc_def)

text \<open>
  C6. The attributes, the modifiers and the comments of a starting tag are merged into one list that is
  sorted by the start offset in the source, and each entry is then replaced by its printed form. When
  an element prints, the entries of its starting tag are therefore, behind \<open><\<close> and the tag name, one
  breakable line and one printed form per entry, where the entries are a rearrangement of the three
  lists taken together, ascend by start offset, keep among entries of the same offset the order of the
  merged list, and each carry the document that \<^const>\<open>print\<close> returns for their node.
\<close>

theorem starting_tag_order:
  assumes "print opts p (ElementNode l tag attrs mods cmts children bps sc) = Inr (n', d)"
  shows "\<exists>entries rest.
     d = Concat (Group (Concat [Str ''<'', Str tag,
                                Indent (Concat (map (\<lambda>(n, e). Concat [line, e]) entries @
                                                (if bps \<noteq> [] then [line, printBlockParams bps] else []))),
                                printStartingTagEndMarker]) # rest) \<and>
     mset (map fst entries) = mset (attrs @ mods @ cmts) \<and>
     sorted (map (locStart \<circ> fst) entries) \<and>
     (\<forall>k. filter (\<lambda>n. locStart n = k) (map fst entries) =
          filter (\<lambda>n. locStart n = k) (attrs @ mods @ cmts)) \<and>
     (\<forall>(n, e) \<in> set entries. \<exists>prop sibs i m.
        print opts (enter_at (ElementNode l tag attrs mods cmts children bps sc) prop sibs i p) n = Inr (m, e))"
proof -
  let ?self = "ElementNode l tag attrs mods cmts children bps sc"
  from assms obtain attrs' ads mods' mds cmts' cds rest where
    a: "print_each opts p ?self ''attributes'' attrs 0 attrs = Inr (attrs', ads)"
    and m: "print_each opts p ?self ''modifiers'' mods 0 mods = Inr (mods', mds)"
    and c: "print_each opts p ?self ''comments'' cmts 0 cmts = Inr (cmts', cds)"
    and d: "d = Concat (Group (Concat (printStartingTag_doc tag (zip attrs ads @ zip mods mds @ zip cmts cds) bps))
                        # rest)"
    by (rule print_ElementNode_tag)
  let ?merged = "zip attrs ads @ zip mods mds @ zip cmts cds"
  let ?key = "\<lambda>(n, e). locStart n"
  define entries where "entries = sort_key ?key ?merged"
  have key: "?key = locStart \<circ> fst"
    by auto
  have fst_merged: "map fst ?merged = attrs @ mods @ cmts"
    using print_each_zip(1)[OF a] print_each_zip(1)[OF m] print_each_zip(1)[OF c] by simp
  have d': "d = Concat (Group (Concat [Str ''<'', Str tag,
                                Indent (Concat (map (\<lambda>(n, e). Concat [line, e]) entries @
                                                (if bps \<noteq> [] then [line, printBlockParams bps] else []))),
                                printStartingTagEndMarker]) # rest)"
    by (simp add: d printStartingTag_doc_def entries_def Let_def)
  have "mset entries = mset ?merged"
    by (simp add: entries_def)
  then have "mset (map fst entries) = mset (map fst ?merged)"
    by (metis mset_map)
  then have perm: "mset (map fst entries) = mset (attrs @ mods @ cmts)"
    by (simp only: fst_merged)
  have srt: "sorted (map (locStart \<circ> fst) entries)"
    unfolding entries_def key by (rule sorted_sort_key)
  have stable: "filter (\<lambda>n. locStart n = k) (map fst entries) =
          filter (\<lambda>n. locStart n = k) (attrs @ mods @ cmts)" for k
  proof -
    have "filter (\<lambda>n. locStart n = k) (map fst entries) =
            map fst (filter (\<lambda>x. (locStart \<circ> fst) x = k) entries)"
      by (simp add: filter_map comp_def)
    also have "\<dots> = map fst (filter (\<lambda>x. (locStart \<circ> fst) x = k) ?merged)"
      unfolding entries_def key by (simp only: sort_key_stable)
    also have "\<dots> = filter (\<lambda>n. locStart n = k) (map fst ?merged)"
      by (simp add: filter_map comp_def)
    finally show ?thesis
      by (simp only: fst_merged)
  qed
  have mem: "\<forall>(n, e) \<in> set entries. \<exists>prop sibs i m.
        print opts (enter_at ?self prop sibs i p) n = Inr (m, e)"
  proof (clarify)
    fix n e assume "(n, e) \<in> set entries"
    then have "(n, e) \<in> set (zip attrs ads) \<or> (n, e) \<in> set (zip mods mds) \<or> (n, e) \<in> set (zip cmts cds)"
      by (simp add: entries_def)
    then show "\<exists>prop sibs i m. print opts (enter_at ?self prop sibs i p) n = Inr (m, e)"
      using print_each_zip(2)[OF a] print_each_zip(2)[OF m] print_each_zip(2)[OF c]
      by blast
  qed
  from d' perm srt stable mem show ?thesis
    by blast
qed

theorem starting_tag_order_witness:
  "print (example_options ''css'' []) [] example_element = Inr (example_element, example_element_doc) \<and>
   (\<exists>entries rest.
      example_element_doc =
        Concat (Group (Concat [Str ''<'', Str ''div'',
                               Indent (Concat (map (\<lambda>(n, e). Concat [line, e]) entries)),
                               printStartingTagEndMarker]) # rest) \<and>
      sorted (map (locStart \<circ> fst) entries) \<and>
      mset (map fst entries) =
        {#AttrNode \<lparr>loc_start = 5, loc_end = 6\<rparr> ''a'' (TextNode \<lparr>loc_start = 6, loc_end = 6\<rparr> []),
          MustacheCommentStatement \<lparr>loc_start = 7, loc_end = 15\<rparr> '' c '',
          ElementModifierStatement \<lparr>loc_start = 16, loc_end = 21\<rparr> (example_path 18 ''m'') []
            (Some (Hash \<lparr>loc_start = 20, loc_end = 20\<rparr> [])),
          AttrNode \<lparr>loc_start = 22, loc_end = 23\<rparr> ''b'' (TextNode \<lparr>loc_start = 23, loc_end = 23\<rparr> [])#})"
proof -
  note pr = example_element_print[unfolded example_element_def]
  from starting_tag_order[OF pr]
  obtain entries rest where
    d: "example_element_doc =
        Concat (Group (Concat [Str ''<'', Str ''div'',
                               Indent (Concat (map (\<lambda>(n, e). Concat [line, e]) entries @
                                               (if ([]::string list) \<noteq> [] then [line, printBlockParams []] else []))),
                               printStartingTagEndMarker]) # rest)"
    and s: "sorted (map (locStart \<circ> fst) entries)"
    and m: "mset (map fst entries) =
        mset ([AttrNode \<lparr>loc_start = 5, loc_end = 6\<rparr> ''a'' (TextNode \<lparr>loc_start = 6, loc_end = 6\<rparr> []),
               AttrNode \<lparr>loc_start = 22, loc_end = 23\<rparr> ''b'' (TextNode \<lparr>loc_start = 23, loc_end = 23\<rparr> [])] @
              [ElementModifierStatement \<lparr>loc_start = 16, loc_end = 21\<rparr> (example_path 18 ''m'') []
                 (Some (Hash \<lparr>loc_start = 20, loc_end = 20\<rparr> []))] @
              [MustacheCommentStatement \<lparr>loc_start = 7, loc_end = 15\<rparr> '' c ''])"
    by blast
  from d have d': "example_element_doc =
        Concat (Group (Concat [Str ''<'', Str ''div'',
                               Indent (Concat (map (\<lambda>(n, e). Concat [line, e]) entries)),
                               printStartingTagEndMarker]) # rest)"
    by simp
  from m have m': "mset (map fst entries) =
        {#AttrNode \<lparr>loc_start = 5, loc_end = 6\<rparr> ''a'' (TextNode \<lparr>loc_start = 6, loc_end = 6\<rparr> []),
          MustacheCommentStatement \<lparr>loc_start = 7, loc_end = 15\<rparr> '' c '',
          ElementModifierStatement \<lparr>loc_start = 16, loc_end = 21\<rparr> (example_path 18 ''m'') []
            (Some (Hash \<lparr>loc_start = 20, loc_end = 20\<rparr> [])),
          AttrNode \<lparr>loc_start = 22, loc_end = 23\<rparr> ''b'' (TextNode \<lparr>loc_start = 23, loc_end = 23\<rparr> [])#}"
    by (simp add: add_mset_commute)
  from example_element_print d' s m' show ?thesis
    by blast
qed

section \<open>What the printer writes to the tree\<close>












section \<open>Success and failure of the printer\<close>

lemma bind_res_Inl_iff:
  "bind_res m f = Inl e \<longleftrightarrow> m = Inl e \<or> (\<exists>x. m = Inr x \<and> f x = Inl e)"
  by (cases m) (simp_all add: bind_res_def)

lemma print_body_kind:
  "print opts p n = Inr (n', d) \<Longrightarrow> node_body n \<noteq> None \<Longrightarrow> node_body n' \<noteq> None"
  by (cases n) (auto simp: bind_res_Inr_iff)

lemma print_opt_branch:
  "print_opt opts p b = Inr (b', d) \<Longrightarrow> typed_branch b \<Longrightarrow> typed_branch b'"
  by (cases b) (auto simp: bind_res_Inr_iff typed_branch_def dest: print_body_kind)

lemma whitespace_supported: "list_all isWhitespaceNode ns \<Longrightarrow> supported_each ns"
proof (induction ns)
  case Nil
  then show ?case by simp
next
  case (Cons n ns)
  then show ?case by (cases n) simp_all
qed

lemma whitespace_program_supported:
  "blockStatementHasOnlyWhitespaceInProgram program = Inr True \<Longrightarrow> supported program"
  by (cases program) (auto simp: blockStatementHasOnlyWhitespaceInProgram_def whitespace_supported)

lemma typed_program_whitespace:
  "node_body program \<noteq> None \<Longrightarrow> blockStatementHasOnlyWhitespaceInProgram program \<noteq> Inl e"
  by (auto simp: blockStatementHasOnlyWhitespaceInProgram_def)

lemma typed_branch_else_if:
  "typed_branch b \<Longrightarrow> blockStatementHasElseIfLike pth b \<noteq> Inl e"
  by (auto simp: blockStatementHasElseIfLike_def typed_branch_def split: option.splits)

lemma isElseIfLike_typed:
  "well_typed_path p \<Longrightarrow> isElseIfLike p pth \<noteq> Inl e"
  by (auto simp: isElseIfLike_def well_typed_path_def path_grandparent_def getParentNode_def
      list_all_length typed_branch_def split: option.splits node.splits)

lemma grandparent_inverseStrip_typed:
  "isElseIfLike p pth = Inr True \<Longrightarrow> grandparent_inverseStrip p \<noteq> Inl e"
  by (auto simp: isElseIfLike_def grandparent_inverseStrip_def split: option.splits node.splits)

lemma well_typed_path_enter [simp]:
  "well_typed_path (enter n prop p) \<longleftrightarrow> typed_node n \<and> well_typed_path p"
  "well_typed_path (enter_at n prop sibs i p) \<longleftrightarrow> typed_node n \<and> well_typed_path p"
  by (simp_all add: well_typed_path_def enter_def enter_at_def)


lemma print_each_supported:
  assumes "\<And>x q m e. x \<in> set ns \<Longrightarrow> print opts q x = Inr (m, e) \<Longrightarrow> well_typed x \<Longrightarrow> supported x"
    and "print_each opts p parent prop sibs i ns = Inr (ns', ds)"
    and "well_typed_each ns"
  shows "supported_each ns"
  using assms
proof (induction ns arbitrary: i ns' ds)
  case Nil
  then show ?case by simp
next
  case (Cons n ns)
  from Cons.prems(2) obtain n' d ms es where
    h: "print opts (enter_at parent prop sibs i p) n = Inr (n', d)"
       "print_each opts p parent prop sibs (Suc i) ns = Inr (ms, es)"
    by (auto simp: bind_res_Inr_iff)
  from Cons.prems(3) have f: "well_typed n" "well_typed_each ns"
    by simp_all
  have "supported n"
    using Cons.prems(1)[OF _ h(1) f(1)] by simp
  moreover have "supported_each ns"
    using Cons.IH[OF _ h(2) f(2)] Cons.prems(1) by simp
  ultimately show ?case
    by simp
qed

lemma print_opt_supported:
  assumes "\<And>x q m e. x \<in> set_option h \<Longrightarrow> print opts q x = Inr (m, e) \<Longrightarrow> well_typed x \<Longrightarrow> supported x"
    and "print_opt opts p h = Inr (h', d)"
    and "well_typed_opt h"
  shows "supported_opt h"
  using assms by (cases h) (auto simp: bind_res_Inr_iff)

lemma empty_hash_supported: "hash_pairs h = Some [] \<Longrightarrow> supported h"
  by (cases h) simp_all

lemma printParams_of_supported:
  assumes "printParams_of pp ph (params, hash) = Inr (r, d)"
    and "\<And>ps ds. pp = Inr (ps, ds) \<Longrightarrow> supported_each params"
    and "\<And>h e. ph = Inr (h, e) \<Longrightarrow> supported_opt hash"
  shows "supported_each params \<and> supported_opt hash"
proof
  show "supported_each params"
    using assms(1,2)
    by (cases "params = []") (auto simp: printParams_of_def bind_res_Inr_iff split: if_splits)
  show "supported_opt hash"
  proof (cases hash)
    case None
    then show ?thesis by simp
  next
    case (Some h)
    show ?thesis
    proof (cases "hash_pairs h = Some []")
      case True
      then show ?thesis using Some by (simp add: empty_hash_supported)
    next
      case False
      with assms(1) Some obtain x where "ph = Inr x"
        by (auto simp: printParams_of_def bind_res_Inr_iff split: if_splits option.splits)
      then show ?thesis
        using assms(3)[of "fst x" "snd x"] by simp
    qed
  qed
qed

lemma printParams_supported:
  assumes "\<And>x q m e. x \<in> set params \<Longrightarrow> print opts q x = Inr (m, e) \<Longrightarrow> well_typed x \<Longrightarrow> supported x"
    and "\<And>x q m e. x \<in> set_option hash \<Longrightarrow> print opts q x = Inr (m, e) \<Longrightarrow> well_typed x \<Longrightarrow> supported x"
    and "printParams_of (print_each opts p self prop params 0 params) (print_opt opts q hash) (params, hash) =
           Inr (r, d)"
    and "well_typed_each params"
    and "well_typed_opt hash"
  shows "supported_each params \<and> supported_opt hash"
  using assms(3)
proof (rule printParams_of_supported)
  fix ps ds assume "print_each opts p self prop params 0 params = Inr (ps, ds)"
  with assms(1) show "supported_each params" using assms(4) by (rule print_each_supported)
next
  fix h e assume "print_opt opts q hash = Inr (h, e)"
  with assms(2) show "supported_opt hash" using assms(5) by (rule print_opt_supported)
qed

lemma print_ElementNode_success:
  assumes "print opts p (ElementNode l tag attrs mods cmts children bps sc) = Inr (n', d)"
  obtains attrs' ads mods' mds cmts' cds where
    "print_each opts p (ElementNode l tag attrs mods cmts children bps sc) ''attributes'' attrs 0 attrs =
       Inr (attrs', ads)"
    "print_each opts p (ElementNode l tag attrs mods cmts children bps sc) ''modifiers'' mods 0 mods =
       Inr (mods', mds)"
    "print_each opts p (ElementNode l tag attrs mods cmts children bps sc) ''comments'' cmts 0 cmts =
       Inr (cmts', cds)"
    "sc \<or> list_all isWhitespaceNode children \<or>
     (\<exists>r. print_each opts p (ElementNode l tag attrs mods cmts children bps sc) ''children'' children 0 children =
            Inr r)"
  using assms
  by (auto simp: bind_res_Inr_iff Let_def split: if_splits)

lemma print_BlockStatement_success:
  assumes "print opts p (BlockStatement l pth params hash program inv_b ost ist cst) = Inr (n', d)"
  obtains r paramsDoc inv_r where
    "printParams_of
       (print_each opts p (BlockStatement l pth params hash program inv_b ost ist cst) ''params'' params 0 params)
       (print_opt opts (enter (BlockStatement l pth params hash program inv_b ost ist cst) ''hash'' p) hash)
       (params, hash) = Inr (r, paramsDoc)"
    "blockStatementHasOnlyWhitespaceInProgram program = Inr True \<or>
     (\<exists>r. print opts (enter (BlockStatement l pth params hash program inv_b ost ist cst) ''program'' p) program =
            Inr r)"
    "print_opt opts (enter (BlockStatement l pth params hash program inv_b ost ist cst) ''inverse'' p) inv_b =
       Inr inv_r"
  using assms
  by (auto simp: bind_res_Inr_iff Let_def split: if_splits)

lemma print_success_supported:
  "print opts p n = Inr (n', d) \<Longrightarrow> well_typed n \<Longrightarrow> supported n"
proof (induction n arbitrary: p n' d)
  case (BodyNode l k body bps)
  from BodyNode.prems(1) obtain body' ds where
    b: "print_each opts p (BodyNode l k body bps) ''body'' body 0 body = Inr (body', ds)"
    by (auto simp: bind_res_Inr_iff)
  from BodyNode.prems(2) have f: "well_typed_each body"
    by simp
  have "supported_each body"
    using BodyNode.IH b f by (rule print_each_supported)
  then show ?case by simp
next
  case (ElementNode l tag attrs mods cmts children bps sc)
  let ?self = "ElementNode l tag attrs mods cmts children bps sc"
  from ElementNode.prems(2) have f: "well_typed_each attrs" "well_typed_each mods"
    "well_typed_each cmts" "well_typed_each children" "sc \<Longrightarrow> list_all isWhitespaceNode children"
    by simp_all
  from ElementNode.prems(1) obtain attrs' ads mods' mds cmts' cds where
    a: "print_each opts p ?self ''attributes'' attrs 0 attrs = Inr (attrs', ads)"
    and m: "print_each opts p ?self ''modifiers'' mods 0 mods = Inr (mods', mds)"
    and c: "print_each opts p ?self ''comments'' cmts 0 cmts = Inr (cmts', cds)"
    and k: "sc \<or> list_all isWhitespaceNode children \<or>
            (\<exists>r. print_each opts p ?self ''children'' children 0 children = Inr r)"
    by (rule print_ElementNode_success)
  have "supported_each attrs"
    using ElementNode.IH(1) a f(1) by (rule print_each_supported)
  moreover have "supported_each mods"
    using ElementNode.IH(2) m f(2) by (rule print_each_supported)
  moreover have "supported_each cmts"
    using ElementNode.IH(3) c f(3) by (rule print_each_supported)
  moreover have "supported_each children"
  proof (cases "list_all isWhitespaceNode children")
    case True
    then show ?thesis by (rule whitespace_supported)
  next
    case False
    with k f(5) obtain cs ds where
      "print_each opts p ?self ''children'' children 0 children = Inr (cs, ds)"
      by auto
    with ElementNode.IH(4) show ?thesis
      using f(4) by (rule print_each_supported)
  qed
  ultimately show ?case
    by simp
next
  case (BlockStatement l pth params hash program inv_b ost ist cst)
  let ?self = "BlockStatement l pth params hash program inv_b ost ist cst"
  from BlockStatement.prems(2) have f: "well_typed_each params" "well_typed_opt hash" "well_typed program"
    "well_typed_opt inv_b"
    by simp_all
  from BlockStatement.prems(1) obtain r paramsDoc inv_r where
    pp: "printParams_of (print_each opts p ?self ''params'' params 0 params)
           (print_opt opts (enter ?self ''hash'' p) hash) (params, hash) = Inr (r, paramsDoc)"
    and pg: "blockStatementHasOnlyWhitespaceInProgram program = Inr True \<or>
             (\<exists>r. print opts (enter ?self ''program'' p) program = Inr r)"
    and pi: "print_opt opts (enter ?self ''inverse'' p) inv_b = Inr inv_r"
    by (rule print_BlockStatement_success)
  have "supported_each params \<and> supported_opt hash"
    using BlockStatement.IH(1,2) pp f(1,2) by (rule printParams_supported)
  moreover have "supported program"
    using pg
  proof
    assume "blockStatementHasOnlyWhitespaceInProgram program = Inr True"
    then show ?thesis by (rule whitespace_program_supported)
  next
    assume "\<exists>r. print opts (enter ?self ''program'' p) program = Inr r"
    then obtain m e where "print opts (enter ?self ''program'' p) program = Inr (m, e)"
      by auto
    then show ?thesis
      using f(3) by (rule BlockStatement.IH(3))
  qed
  moreover have "supported_opt inv_b"
  proof -
    from pi have "print_opt opts (enter ?self ''inverse'' p) inv_b = Inr (fst inv_r, snd inv_r)"
      by simp
    with BlockStatement.IH(4) show ?thesis
      using f(4) by (rule print_opt_supported)
  qed
  ultimately show ?case
    by simp
next
  case (ElementModifierStatement l pth params hash)
  let ?self = "ElementModifierStatement l pth params hash"
  from ElementModifierStatement.prems(2) have f: "well_typed pth" "well_typed_each params" "well_typed_opt hash"
    by simp_all
  from ElementModifierStatement.prems(1) obtain pth' pathDoc r paramsDoc where
    pa: "print opts (enter ?self ''path'' p) pth = Inr (pth', pathDoc)"
    and pp: "printParams_of (print_each opts p ?self ''params'' params 0 params)
           (print_opt opts (enter ?self ''hash'' p) hash) (params, hash) = Inr (r, paramsDoc)"
    by (auto simp: bind_res_Inr_iff Let_def)
  have "supported pth"
    using pa f(1) by (rule ElementModifierStatement.IH(1))
  moreover have "supported_each params \<and> supported_opt hash"
    using ElementModifierStatement.IH(2,3) pp f(2,3) by (rule printParams_supported)
  ultimately show ?case
    by simp
next
  case (MustacheStatement l pth params hash esc st)
  let ?self = "MustacheStatement l pth params hash esc st"
  from MustacheStatement.prems(2) have f: "well_typed pth" "well_typed_each params" "well_typed_opt hash"
    by simp_all
  from MustacheStatement.prems(1) obtain pth' pathDoc r paramsDoc where
    pa: "print opts (enter ?self ''path'' p) pth = Inr (pth', pathDoc)"
    and pp: "printParams_of (print_each opts p ?self ''params'' params 0 params)
           (print_opt opts (enter ?self ''hash'' p) hash) (params, hash) = Inr (r, paramsDoc)"
    by (auto simp: bind_res_Inr_iff Let_def)
  have "supported pth"
    using pa f(1) by (rule MustacheStatement.IH(1))
  moreover have "supported_each params \<and> supported_opt hash"
    using MustacheStatement.IH(2,3) pp f(2,3) by (rule printParams_supported)
  ultimately show ?case
    by simp
next
  case (SubExpression l pth params hash)
  let ?self = "SubExpression l pth params hash"
  from SubExpression.prems(2) have f: "well_typed pth" "well_typed_each params" "well_typed_opt hash"
    by simp_all
  from SubExpression.prems(1) obtain pth' pathDoc r paramsDoc where
    pa: "print opts (enter ?self ''path'' p) pth = Inr (pth', pathDoc)"
    and pp: "printParams_of (print_each opts p ?self ''params'' params 0 params)
           (print_opt opts (enter ?self ''hash'' p) hash) (params, hash) = Inr (r, paramsDoc)"
    by (auto simp: bind_res_Inr_iff Let_def)
  have "supported pth"
    using pa f(1) by (rule SubExpression.IH(1))
  moreover have "supported_each params \<and> supported_opt hash"
    using SubExpression.IH(2,3) pp f(2,3) by (rule printParams_supported)
  ultimately show ?case
    by simp
next
  case (AttrNode l name v)
  show ?case
  proof (cases "attr_without_value v")
    case True
    then show ?thesis
      by (cases v) (simp_all add: attr_without_value_def)
  next
    case False
    with AttrNode.prems(1) obtain v' e where
      "print opts (enter (AttrNode l name v) ''value'' p) v = Inr (v', e)"
      by (auto simp: bind_res_Inr_iff Let_def)
    then have "supported v"
      using AttrNode.prems(2) by (auto intro: AttrNode.IH)
    then show ?thesis by simp
  qed
next
  case (ConcatStatement l ps)
  from ConcatStatement.prems(1) obtain ps' ds where
    b: "print_each opts p (ConcatStatement l ps) ''parts'' ps 0 ps = Inr (ps', ds)"
    by (auto simp: bind_res_Inr_iff)
  from ConcatStatement.prems(2) have f: "well_typed_each ps"
    by simp
  have "supported_each ps"
    using ConcatStatement.IH b f by (rule print_each_supported)
  then show ?case by simp
next
  case (Hash l pairs)
  from Hash.prems(1) obtain pairs' ds where
    b: "print_each opts p (Hash l pairs) ''pairs'' pairs 0 pairs = Inr (pairs', ds)"
    by (auto simp: bind_res_Inr_iff)
  from Hash.prems(2) have f: "well_typed_each pairs"
    by simp
  have "supported_each pairs"
    using Hash.IH b f by (rule print_each_supported)
  then show ?case by simp
next
  case (HashPair l key v)
  from HashPair.prems(1) obtain v' e where
    "print opts (enter (HashPair l key v) ''value'' p) v = Inr (v', e)"
    by (auto simp: bind_res_Inr_iff)
  then have "supported v"
    using HashPair.prems(2) by (auto intro: HashPair.IH)
  then show ?case by simp
qed simp_all


lemma print_each_failure:
  assumes "\<And>x q e. x \<in> set ns \<Longrightarrow> print opts q x = Inl e \<Longrightarrow> well_typed x \<Longrightarrow> well_typed_path q \<Longrightarrow>
             e \<noteq> TypeError \<and> \<not> supported x"
    and "print_each opts p parent prop sibs i ns = Inl e"
    and "well_typed_each ns"
    and "typed_node parent"
    and "well_typed_path p"
  shows "e \<noteq> TypeError \<and> \<not> supported_each ns"
  using assms(1,2,3)
proof (induction ns arbitrary: i)
  case Nil
  then show ?case by simp
next
  case (Cons n ns)
  from Cons.prems(3) have f: "well_typed n" "well_typed_each ns"
    by simp_all
  have q: "well_typed_path (enter_at parent prop sibs i p)"
    using assms(4,5) by simp
  from Cons.prems(2) consider
    (first) "print opts (enter_at parent prop sibs i p) n = Inl e"
    | (rest) "print_each opts p parent prop sibs (Suc i) ns = Inl e"
    by (auto simp: bind_res_Inl_iff)
  then show ?case
  proof cases
    case first
    then have "e \<noteq> TypeError \<and> \<not> supported n"
      using f(1) q by (rule Cons.prems(1)[OF list.set_intros(1)])
    then show ?thesis by simp
  next
    case rest
    have "e \<noteq> TypeError \<and> \<not> supported_each ns"
    proof (rule Cons.IH[OF _ rest f(2)])
      fix x q e'
      assume "x \<in> set ns" and "print opts q x = Inl e'" and "well_typed x" and "well_typed_path q"
      then show "e' \<noteq> TypeError \<and> \<not> supported x"
        using Cons.prems(1)[of x q e'] by simp
    qed
    then show ?thesis by simp
  qed
qed

lemma print_opt_failure:
  assumes "\<And>x q e. x \<in> set_option h \<Longrightarrow> print opts q x = Inl e \<Longrightarrow> well_typed x \<Longrightarrow> well_typed_path q \<Longrightarrow>
             e \<noteq> TypeError \<and> \<not> supported x"
    and "print_opt opts p h = Inl e"
    and "well_typed_opt h"
    and "well_typed_path p"
  shows "e \<noteq> TypeError \<and> \<not> supported_opt h"
proof (cases h)
  case None
  with assms(2) show ?thesis by simp
next
  case (Some n)
  with assms(2) have "print opts p n = Inl e"
    by (auto simp: bind_res_Inl_iff)
  then have "e \<noteq> TypeError \<and> \<not> supported n"
    using assms(1,3,4) Some by simp
  then show ?thesis
    using Some by simp
qed

lemma printParams_of_failure:
  assumes "printParams_of pp ph (params, hash) = Inl e"
    and "typed_hash hash"
    and "pp = Inl e \<Longrightarrow> e \<noteq> TypeError \<and> \<not> supported_each params"
    and "ph = Inl e \<Longrightarrow> e \<noteq> TypeError \<and> \<not> supported_opt hash"
  shows "e \<noteq> TypeError \<and> \<not> (supported_each params \<and> supported_opt hash)"
  using assms
  by (auto simp: printParams_of_def bind_res_Inl_iff typed_hash_def split: if_splits option.splits)

lemma printParams_failure:
  assumes "\<And>x q e. x \<in> set params \<Longrightarrow> print opts q x = Inl e \<Longrightarrow> well_typed x \<Longrightarrow> well_typed_path q \<Longrightarrow>
             e \<noteq> TypeError \<and> \<not> supported x"
    and "\<And>x q e. x \<in> set_option hash \<Longrightarrow> print opts q x = Inl e \<Longrightarrow> well_typed x \<Longrightarrow> well_typed_path q \<Longrightarrow>
             e \<noteq> TypeError \<and> \<not> supported x"
    and "printParams_of (print_each opts p self ''params'' params 0 params)
           (print_opt opts (enter self ''hash'' p) hash) (params, hash) = Inl e"
    and "typed_hash hash"
    and "well_typed_each params"
    and "well_typed_opt hash"
    and "typed_node self"
    and "well_typed_path p"
  shows "e \<noteq> TypeError \<and> \<not> (supported_each params \<and> supported_opt hash)"
  using assms(3,4)
proof (rule printParams_of_failure)
  assume "print_each opts p self ''params'' params 0 params = Inl e"
  with assms(1) show "e \<noteq> TypeError \<and> \<not> supported_each params"
    using assms(5,7,8) by (rule print_each_failure)
next
  have q: "well_typed_path (enter self ''hash'' p)"
    using assms(7,8) by simp
  assume "print_opt opts (enter self ''hash'' p) hash = Inl e"
  with assms(2) show "e \<noteq> TypeError \<and> \<not> supported_opt hash"
    using assms(6) q by (rule print_opt_failure)
qed

lemma print_ElementNode_failure:
  assumes "print opts p (ElementNode l tag attrs mods cmts children bps sc) = Inl e"
  obtains
    (attributes) "print_each opts p (ElementNode l tag attrs mods cmts children bps sc) ''attributes'' attrs 0 attrs =
       Inl e"
  | (modifiers) "print_each opts p (ElementNode l tag attrs mods cmts children bps sc) ''modifiers'' mods 0 mods =
       Inl e"
  | (comments) "print_each opts p (ElementNode l tag attrs mods cmts children bps sc) ''comments'' cmts 0 cmts =
       Inl e"
  | (children) "print_each opts p (ElementNode l tag attrs mods cmts children bps sc) ''children'' children 0 children =
       Inl e"
  using assms
  by (auto simp: bind_res_Inl_iff bind_res_Inr_iff Let_def split: if_splits)

lemma print_BlockStatement_failure:
  assumes "print opts p (BlockStatement l pth params hash program inv_b ost ist cst) = Inl e"
  obtains
    (chain) "isElseIfLike p pth = Inl e"
  | (strip) "isElseIfLike p pth = Inr True" "grandparent_inverseStrip p = Inl e"
  | (params) "printParams_of
       (print_each opts p (BlockStatement l pth params hash program inv_b ost ist cst) ''params'' params 0 params)
       (print_opt opts (enter (BlockStatement l pth params hash program inv_b ost ist cst) ''hash'' p) hash)
       (params, hash) = Inl e"
  | (whitespace) "blockStatementHasOnlyWhitespaceInProgram program = Inl e"
  | (program) "print opts (enter (BlockStatement l pth params hash program inv_b ost ist cst) ''program'' p) program =
       Inl e"
  | (inverse) "print_opt opts (enter (BlockStatement l pth params hash program inv_b ost ist cst) ''inverse'' p) inv_b =
       Inl e"
  | (else_if) inv_b' inv_d where
      "print_opt opts (enter (BlockStatement l pth params hash program inv_b ost ist cst) ''inverse'' p) inv_b =
         Inr (inv_b', inv_d)"
      "blockStatementHasElseIfLike pth inv_b' = Inl e"
  | (closing) program' r where
      "program' = program \<or>
       print opts (enter (BlockStatement l pth params hash program inv_b ost ist cst) ''program'' p) program =
         Inr (program', r)"
      "blockStatementHasOnlyWhitespaceInProgram program' = Inl e"
  using assms
  by (auto simp: bind_res_Inl_iff bind_res_Inr_iff Let_def split: if_splits)

lemma print_failure_unsupported:
  "print opts p n = Inl e \<Longrightarrow> well_typed n \<Longrightarrow> well_typed_path p \<Longrightarrow> e \<noteq> TypeError \<and> \<not> supported n"
proof (induction n arbitrary: p e)
  case (BodyNode l k body bps)
  from BodyNode.prems(1) have b: "print_each opts p (BodyNode l k body bps) ''body'' body 0 body = Inl e"
    by (auto simp: bind_res_Inl_iff)
  from BodyNode.prems(2) have f: "well_typed_each body"
    by simp
  have t: "typed_node (BodyNode l k body bps)"
    by simp
  have "e \<noteq> TypeError \<and> \<not> supported_each body"
    using BodyNode.IH b f t BodyNode.prems(3) by (rule print_each_failure)
  then show ?case by simp
next
  case (ElementNode l tag attrs mods cmts children bps sc)
  let ?self = "ElementNode l tag attrs mods cmts children bps sc"
  from ElementNode.prems(2) have f: "well_typed_each attrs" "well_typed_each mods"
    "well_typed_each cmts" "well_typed_each children" and t: "typed_node ?self"
    by simp_all
  note q = ElementNode.prems(3)
  from ElementNode.prems(1) show ?case
  proof (cases rule: print_ElementNode_failure)
    case attributes
    with ElementNode.IH(1) have "e \<noteq> TypeError \<and> \<not> supported_each attrs"
      using f(1) t q by (rule print_each_failure)
    then show ?thesis by simp
  next
    case modifiers
    with ElementNode.IH(2) have "e \<noteq> TypeError \<and> \<not> supported_each mods"
      using f(2) t q by (rule print_each_failure)
    then show ?thesis by simp
  next
    case comments
    with ElementNode.IH(3) have "e \<noteq> TypeError \<and> \<not> supported_each cmts"
      using f(3) t q by (rule print_each_failure)
    then show ?thesis by simp
  next
    case children
    with ElementNode.IH(4) have "e \<noteq> TypeError \<and> \<not> supported_each children"
      using f(4) t q by (rule print_each_failure)
    then show ?thesis by simp
  qed
next
  case (BlockStatement l pth params hash program inv_b ost ist cst)
  let ?self = "BlockStatement l pth params hash program inv_b ost ist cst"
  from BlockStatement.prems(2) have f: "well_typed_each params" "well_typed_opt hash" "well_typed program"
    "well_typed_opt inv_b" and t: "typed_node ?self"
    by simp_all
  from t have th: "typed_hash hash" and tp: "node_body program \<noteq> None" and ti: "typed_branch inv_b"
    by simp_all
  note q = BlockStatement.prems(3)
  from BlockStatement.prems(1) show ?case
  proof (cases rule: print_BlockStatement_failure)
    case chain
    with isElseIfLike_typed[OF q] show ?thesis by blast
  next
    case strip
    with grandparent_inverseStrip_typed show ?thesis by blast
  next
    case params
    with BlockStatement.IH(1,2) have "e \<noteq> TypeError \<and> \<not> (supported_each params \<and> supported_opt hash)"
      using th f(1,2) t q by (rule printParams_failure)
    then show ?thesis by auto
  next
    case whitespace
    with typed_program_whitespace[OF tp] show ?thesis by blast
  next
    case program
    have "well_typed_path (enter ?self ''program'' p)"
      using t q by simp
    with program f(3) have "e \<noteq> TypeError \<and> \<not> supported program"
      by (rule BlockStatement.IH(3))
    then show ?thesis by simp
  next
    case inverse
    have "well_typed_path (enter ?self ''inverse'' p)"
      using t q by simp
    with BlockStatement.IH(4) inverse f(4) have "e \<noteq> TypeError \<and> \<not> supported_opt inv_b"
      by (rule print_opt_failure)
    then show ?thesis by simp
  next
    case (else_if inv_b' inv_d)
    from else_if(1) ti have "typed_branch inv_b'"
      by (rule print_opt_branch)
    with else_if(2) typed_branch_else_if show ?thesis by blast
  next
    case (closing program' r)
    from closing(1) tp have "node_body program' \<noteq> None"
      by (auto dest: print_body_kind)
    with closing(2) typed_program_whitespace show ?thesis by blast
  qed
next
  case (ElementModifierStatement l pth params hash)
  let ?self = "ElementModifierStatement l pth params hash"
  from ElementModifierStatement.prems(2) have f: "well_typed pth" "well_typed_each params" "well_typed_opt hash"
    and t: "typed_node ?self"
    by simp_all
  from t have th: "typed_hash hash"
    by simp
  note q = ElementModifierStatement.prems(3)
  from ElementModifierStatement.prems(1) consider
    (path) "print opts (enter ?self ''path'' p) pth = Inl e"
    | (params) "printParams_of (print_each opts p ?self ''params'' params 0 params)
           (print_opt opts (enter ?self ''hash'' p) hash) (params, hash) = Inl e"
    by (auto simp: bind_res_Inl_iff Let_def)
  then show ?case
  proof cases
    case path
    have "well_typed_path (enter ?self ''path'' p)"
      using t q by simp
    with path f(1) have "e \<noteq> TypeError \<and> \<not> supported pth"
      by (rule ElementModifierStatement.IH(1))
    then show ?thesis by simp
  next
    case params
    with ElementModifierStatement.IH(2,3)
    have "e \<noteq> TypeError \<and> \<not> (supported_each params \<and> supported_opt hash)"
      using th f(2,3) t q by (rule printParams_failure)
    then show ?thesis by auto
  qed
next
  case (MustacheStatement l pth params hash esc st)
  let ?self = "MustacheStatement l pth params hash esc st"
  from MustacheStatement.prems(2) have f: "well_typed pth" "well_typed_each params" "well_typed_opt hash"
    and t: "typed_node ?self"
    by simp_all
  from t have th: "typed_hash hash"
    by simp
  note q = MustacheStatement.prems(3)
  from MustacheStatement.prems(1) consider
    (path) "print opts (enter ?self ''path'' p) pth = Inl e"
    | (params) "printParams_of (print_each opts p ?self ''params'' params 0 params)
           (print_opt opts (enter ?self ''hash'' p) hash) (params, hash) = Inl e"
    by (auto simp: bind_res_Inl_iff Let_def)
  then show ?case
  proof cases
    case path
    have "well_typed_path (enter ?self ''path'' p)"
      using t q by simp
    with path f(1) have "e \<noteq> TypeError \<and> \<not> supported pth"
      by (rule MustacheStatement.IH(1))
    then show ?thesis by simp
  next
    case params
    with MustacheStatement.IH(2,3)
    have "e \<noteq> TypeError \<and> \<not> (supported_each params \<and> supported_opt hash)"
      using th f(2,3) t q by (rule printParams_failure)
    then show ?thesis by auto
  qed
next
  case (SubExpression l pth params hash)
  let ?self = "SubExpression l pth params hash"
  from SubExpression.prems(2) have f: "well_typed pth" "well_typed_each params" "well_typed_opt hash"
    and t: "typed_node ?self"
    by simp_all
  from t have th: "typed_hash hash"
    by simp
  note q = SubExpression.prems(3)
  from SubExpression.prems(1) consider
    (path) "print opts (enter ?self ''path'' p) pth = Inl e"
    | (params) "printParams_of (print_each opts p ?self ''params'' params 0 params)
           (print_opt opts (enter ?self ''hash'' p) hash) (params, hash) = Inl e"
    by (auto simp: bind_res_Inl_iff Let_def)
  then show ?case
  proof cases
    case path
    have "well_typed_path (enter ?self ''path'' p)"
      using t q by simp
    with path f(1) have "e \<noteq> TypeError \<and> \<not> supported pth"
      by (rule SubExpression.IH(1))
    then show ?thesis by simp
  next
    case params
    with SubExpression.IH(2,3)
    have "e \<noteq> TypeError \<and> \<not> (supported_each params \<and> supported_opt hash)"
      using th f(2,3) t q by (rule printParams_failure)
    then show ?thesis by auto
  qed
next
  case (AttrNode l name v)
  from AttrNode.prems(1) have "print opts (enter (AttrNode l name v) ''value'' p) v = Inl e"
    by (auto simp: bind_res_Inl_iff Let_def split: if_splits)
  moreover have "well_typed v"
    using AttrNode.prems(2) by simp
  moreover have "well_typed_path (enter (AttrNode l name v) ''value'' p)"
    using AttrNode.prems(3) by simp
  ultimately have "e \<noteq> TypeError \<and> \<not> supported v"
    by (rule AttrNode.IH)
  then show ?case by simp
next
  case (ConcatStatement l ps)
  from ConcatStatement.prems(1) have b: "print_each opts p (ConcatStatement l ps) ''parts'' ps 0 ps = Inl e"
    by (auto simp: bind_res_Inl_iff)
  from ConcatStatement.prems(2) have f: "well_typed_each ps"
    by simp
  have t: "typed_node (ConcatStatement l ps)"
    by simp
  have "e \<noteq> TypeError \<and> \<not> supported_each ps"
    using ConcatStatement.IH b f t ConcatStatement.prems(3) by (rule print_each_failure)
  then show ?case by simp
next
  case (Hash l pairs)
  from Hash.prems(1) have b: "print_each opts p (Hash l pairs) ''pairs'' pairs 0 pairs = Inl e"
    by (auto simp: bind_res_Inl_iff)
  from Hash.prems(2) have f: "well_typed_each pairs"
    by simp
  have t: "typed_node (Hash l pairs)"
    by simp
  have "e \<noteq> TypeError \<and> \<not> supported_each pairs"
    using Hash.IH b f t Hash.prems(3) by (rule print_each_failure)
  then show ?case by simp
next
  case (HashPair l key v)
  from HashPair.prems(1) have "print opts (enter (HashPair l key v) ''value'' p) v = Inl e"
    by (auto simp: bind_res_Inl_iff)
  moreover have "well_typed v"
    using HashPair.prems(2) by simp
  moreover have "well_typed_path (enter (HashPair l key v) ''value'' p)"
    using HashPair.prems(3) by simp
  ultimately have "e \<noteq> TypeError \<and> \<not> supported v"
    by (rule HashPair.IH)
  then show ?case by simp
qed simp_all


text \<open>
  C5. The printer fails with \<^verbatim>\<open>UnexpectedNodeError\<close> at a node of a kind that its dispatch does
  not name, at once and with the type tag of the node. On a tree whose fields hold what the
  parser puts there (the \<^verbatim>\<open>program\<close> and the \<^verbatim>\<open>inverse\<close> of a block are Blocks, a \<^verbatim>\<open>hash\<close> is a
  Hash, a void element has no child besides whitespace) it returns a node and a document when
  every kind in the tree is one that the dispatch names, and fails with \<^verbatim>\<open>UnexpectedNodeError\<close>,
  returning no document at all, when some node is of another kind. Without the condition on
  the fields it does neither: the children of a void element are not printed, so that a child
  of another kind is left out without a failure, and a node of another kind in the place of a
  \<^verbatim>\<open>program\<close> fails with a \<^verbatim>\<open>TypeError\<close>.
\<close>

theorem print_total:
  assumes "well_typed n" and "well_typed_path p"
  shows "(supported n \<longrightarrow> (\<exists>n' d. print opts p n = Inr (n', d))) \<and>
         (\<not> supported n \<longrightarrow> (\<exists>t. print opts p n = Inl (UnexpectedNodeError t))) \<and>
         print opts p (OtherNode l tag) = Inl (UnexpectedNodeError tag)"
proof (intro conjI impI)
  assume s: "supported n"
  show "\<exists>n' d. print opts p n = Inr (n', d)"
  proof (cases "print opts p n")
    case (Inl e)
    then have "\<not> supported n"
      using assms by (auto dest: print_failure_unsupported)
    with s show ?thesis by simp
  next
    case (Inr r)
    then show ?thesis by (cases r) simp
  qed
next
  assume u: "\<not> supported n"
  show "\<exists>t. print opts p n = Inl (UnexpectedNodeError t)"
  proof (cases "print opts p n")
    case (Inl e)
    then have "e \<noteq> TypeError"
      using assms by (auto dest: print_failure_unsupported)
    with Inl show ?thesis by (cases e) simp_all
  next
    case (Inr r)
    then have "print opts p n = Inr (fst r, snd r)"
      by simp
    then have "supported n"
      using assms(1) by (rule print_success_supported)
    with u show ?thesis by simp
  qed
next
  show "print opts p (OtherNode l tag) = Inl (UnexpectedNodeError tag)"
    by simp
qed

theorem print_total_witness:
  "well_typed example_text_mustache \<and> supported example_text_mustache \<and>
   (\<exists>n' d. print (example_options ''css'' []) [] example_text_mustache = Inr (n', d)) \<and>
   well_typed example_decorator \<and> \<not> supported example_decorator \<and>
   print (example_options ''css'' []) [] example_decorator = Inl (UnexpectedNodeError ''Decorator'')"
proof -
  have p: "well_typed_path []"
    by (simp add: well_typed_path_def)
  have a: "well_typed example_text_mustache" "supported example_text_mustache"
    by (simp_all add: example_defs typed_hash_def)
  have b: "well_typed example_decorator" "\<not> supported example_decorator"
    by (simp_all add: example_decorator_def)
  have c: "print (example_options ''css'' []) [] example_decorator = Inl (UnexpectedNodeError ''Decorator'')"
    by (simp add: print_defs example_defs example_decorator_def)
  from print_total[OF a(1) p] a(2)
  have "\<exists>n' d. print (example_options ''css'' []) [] example_text_mustache = Inr (n', d)"
    by blast
  with a b c show ?thesis
    by blast
qed

theorem unsupported_child_dropped:
  "\<not> supported example_void_child \<and>
   print (example_options ''css'' []) [] example_void_child =
     Inr (example_void_child, example_void_child_doc) \<and>
   flat_text example_void_child_doc = Some ''<img>'' \<and>
   \<not> supported example_untyped_program \<and>
   print (example_options ''css'' []) [] example_untyped_program = Inl TypeError"
  by (simp add: print_defs example_defs no_strip_def example_void_child_def example_void_child_doc_def
      example_untyped_program_def)

end
